theory Spec2Isabelle
  imports Complex_Main "HOL-Library.AList" "HOL-Library.Multiset"
begin

section \<open>Numbers\<close>

text \<open>
  The engine computes on JavaScript numbers, that is on IEEE 754 doubles. A finite number
  is a real; the hue arithmetic of \<open>interpolateHue\<close> and \<open>calculateCircularMean\<close>, whose
  results are compared exactly, rounds the result of every addition, subtraction,
  multiplication and division to the nearest double (function \<open>dbl\<close>), as the operators
  do. The other arithmetic (the averages of saturation and lightness, the chroma and
  lightness factors, the normalisation of the base hue of a shade) is exact. The two
  places where the
  source produces or holds a non-finite number (the division \<open>sum / length\<close> of
  \<open>analyzeColorsForSchemeGeneration\<close> and the initial distance \<open>Infinity\<close> of
  \<open>findClosestSchemeColor\<close>) carry the type \<open>jsnum\<close>, so that \<open>NaN\<close> and
  \<open>Infinity\<close> are values of the model.
\<close>

datatype jsnum = Num real | PosInf | NegInf | NaN

text \<open>The operator \<open>/\<close> on two finite numbers (the sign of a zero divisor is positive
  wherever the source divides: it is a list length).\<close>

definition js_div :: "real \<Rightarrow> real \<Rightarrow> jsnum" where
  "js_div a b =
     (if b \<noteq> 0 then Num (a / b)
      else if a > 0 then PosInf
      else if a < 0 then NegInf
      else NaN)"

text \<open>\<open>Math.max\<close> and \<open>Math.min\<close> of two numbers: \<open>NaN\<close> if either is.\<close>

fun js_max :: "jsnum \<Rightarrow> jsnum \<Rightarrow> jsnum" where
  "js_max NaN _ = NaN"
| "js_max _ NaN = NaN"
| "js_max PosInf _ = PosInf"
| "js_max _ PosInf = PosInf"
| "js_max NegInf y = y"
| "js_max x NegInf = x"
| "js_max (Num a) (Num b) = Num (max a b)"

fun js_min :: "jsnum \<Rightarrow> jsnum \<Rightarrow> jsnum" where
  "js_min NaN _ = NaN"
| "js_min _ NaN = NaN"
| "js_min NegInf _ = NegInf"
| "js_min _ NegInf = NegInf"
| "js_min PosInf y = y"
| "js_min x PosInf = x"
| "js_min (Num a) (Num b) = Num (min a b)"

text \<open>Multiplication by a positive finite constant, as in \<open>numericChroma * 0.7\<close>.\<close>

fun js_scale :: "jsnum \<Rightarrow> real \<Rightarrow> jsnum" where
  "js_scale (Num a) c = Num (a * c)"
| "js_scale PosInf c = PosInf"
| "js_scale NegInf c = NegInf"
| "js_scale NaN c = NaN"

text \<open>The comparison \<open><\<close>: false whenever an operand is \<open>NaN\<close>.\<close>

fun js_less :: "jsnum \<Rightarrow> jsnum \<Rightarrow> bool" where
  "js_less NaN _ = False"
| "js_less _ NaN = False"
| "js_less (Num a) (Num b) = (a < b)"
| "js_less (Num a) PosInf = True"
| "js_less (Num a) NegInf = False"
| "js_less PosInf _ = False"
| "js_less NegInf NegInf = False"
| "js_less NegInf _ = True"

text \<open>The remainder operator \<open>%\<close> on finite numbers with a non-zero divisor: the
  quotient is truncated towards zero, so the result has the sign of the dividend.\<close>

definition js_trunc :: "real \<Rightarrow> int" where
  "js_trunc x = (if x \<ge> 0 then \<lfloor>x\<rfloor> else \<lceil>x\<rceil>)"

definition js_rem :: "real \<Rightarrow> real \<Rightarrow> real" where
  "js_rem a b = a - b * of_int (js_trunc (a / b))"

text \<open>\<open>Math.round\<close>: the nearest integer, a half rounded up.\<close>

definition js_round :: "real \<Rightarrow> int" where
  "js_round x = \<lfloor>x + 1 / 2\<rfloor>"

text \<open>Rounding to the nearest integer, a tie to the even one.\<close>

definition roundTiesToEven :: "real \<Rightarrow> int" where
  "roundTiesToEven y =
     (let n = \<lfloor>y\<rfloor>; r = y - of_int n in
      if r < 1 / 2 then n
      else if r > 1 / 2 then n + 1
      else if even n then n else n + 1)"

text \<open>The double nearest to a real, a tie to the one with the even significand: a
  significand of 53 bits at the exponent of the number, and at the smallest exponent for
  the subnormal numbers. Overflow to \<open>Infinity\<close> is left out: the hue arithmetic stays
  far below the largest double.\<close>

definition dbl :: "real \<Rightarrow> real" where
  "dbl x =
     (if x = 0 then 0
      else
        (let e = max \<lfloor>log 2 \<bar>x\<bar>\<rfloor> (- 1022);
             u = 2 powr (of_int e - 52)
         in of_int (roundTiesToEven (x / u)) * u))"

text \<open>The constant \<open>Math.PI\<close>, the double nearest to \<open>\<pi>\<close>.\<close>

definition MathPI :: real where
  "MathPI = 884279719003555 / 281474976710656"

text \<open>The multiples of \<open>2\<^sup>-\<^sup>4\<^sup>4\<close> in \<open>[0, 360)\<close>, all of them doubles.\<close>

abbreviation onGrid :: "real \<Rightarrow> bool" where
  "onGrid r \<equiv> (\<exists>k. 0 \<le> k \<and> k < 360 * 2 ^ 44 \<and> r = real_of_int k / 2 ^ 44)"

text \<open>The exact arctangent of two arguments, with the case distinction of
  \<open>Math.atan2\<close>.\<close>

definition js_atan2 :: "real \<Rightarrow> real \<Rightarrow> real" where
  "js_atan2 y x =
     (if x > 0 then arctan (y / x)
      else if x < 0 then (if y \<ge> 0 then arctan (y / x) + pi else arctan (y / x) - pi)
      else if y > 0 then pi / 2
      else if y < 0 then - (pi / 2)
      else 0)"

section \<open>Hue interpolation\<close>

text \<open>\<open>interpolateHue\<close> of the scheme generator.\<close>

definition interpolateHue :: "real \<Rightarrow> real \<Rightarrow> real \<Rightarrow> real" where
  "interpolateHue hue1 hue2 factor =
     (let h1 = js_rem (dbl (js_rem hue1 360 + 360)) 360;
          h2 = js_rem (dbl (js_rem hue2 360 + 360)) 360;
          diff0 = dbl (h2 - h1);
          diff = (if diff0 > 180 then dbl (diff0 - 360)
                  else if diff0 < -180 then dbl (diff0 + 360)
                  else diff0);
          result = dbl (h1 + dbl (diff * factor))
      in js_rem (dbl (js_rem result 360 + 360)) 360)"

section \<open>The colour library and the Math object\<close>

text \<open>
  The conversions between hex strings, RGB and HSL are the library \<open>colord\<close>, and
  \<open>Math.cos\<close>, \<open>Math.sin\<close> and \<open>Math.atan2\<close> are approximations that the JavaScript
  engine supplies; neither is part of the repository. The engine is modelled relative to
  them: every function that calls them takes the functions as a parameter.
\<close>

record hsl =
  hsl_h :: real
  hsl_s :: real
  hsl_l :: real

record rgb =
  rgb_r :: real
  rgb_g :: real
  rgb_b :: real

text \<open>The object \<open>{h, s, l}\<close> handed to \<open>colord\<close> by the shade synthesizer.\<close>

record hslInput =
  in_h :: real
  in_s :: jsnum
  in_l :: real

record externals =
  toHsl :: "string \<Rightarrow> hsl"
  toRgb :: "string \<Rightarrow> rgb"
  toHex :: "hslInput \<Rightarrow> string"
  mathCos :: "real \<Rightarrow> real"
  mathSin :: "real \<Rightarrow> real"
  mathAtan2 :: "real \<Rightarrow> real \<Rightarrow> real"

section \<open>The reference palette table\<close>

datatype OpenColorHue =
  Gray | Red | Pink | Grape | Violet | Indigo | Blue | Cyan | Teal | Green | Lime
  | Yellow | Orange

text \<open>The property key of a family, as it is written in the tables.\<close>

fun hueKey :: "OpenColorHue \<Rightarrow> string" where
  "hueKey Gray = ''gray''"
| "hueKey Red = ''red''"
| "hueKey Pink = ''pink''"
| "hueKey Grape = ''grape''"
| "hueKey Violet = ''violet''"
| "hueKey Indigo = ''indigo''"
| "hueKey Blue = ''blue''"
| "hueKey Cyan = ''cyan''"
| "hueKey Teal = ''teal''"
| "hueKey Green = ''green''"
| "hueKey Lime = ''lime''"
| "hueKey Yellow = ''yellow''"
| "hueKey Orange = ''orange''"

record HueInfo =
  info_name :: string
  info_hue :: real
  info_color :: string

definition OPEN_COLOR_HUES :: "(OpenColorHue \<times> HueInfo) list" where
  "OPEN_COLOR_HUES =
     [(Gray, \<lparr>info_name = ''Gray'', info_hue = 210, info_color = ''#868e96''\<rparr>),
      (Red, \<lparr>info_name = ''Red'', info_hue = 0, info_color = ''#ff6b6b''\<rparr>),
      (Pink, \<lparr>info_name = ''Pink'', info_hue = 328, info_color = ''#f06595''\<rparr>),
      (Grape, \<lparr>info_name = ''Grape'', info_hue = 294, info_color = ''#cc5de8''\<rparr>),
      (Violet, \<lparr>info_name = ''Violet'', info_hue = 260, info_color = ''#845ef7''\<rparr>),
      (Indigo, \<lparr>info_name = ''Indigo'', info_hue = 242, info_color = ''#5c7cfa''\<rparr>),
      (Blue, \<lparr>info_name = ''Blue'', info_hue = 200, info_color = ''#339af0''\<rparr>),
      (Cyan, \<lparr>info_name = ''Cyan'', info_hue = 187, info_color = ''#22b8cf''\<rparr>),
      (Teal, \<lparr>info_name = ''Teal'', info_hue = 162, info_color = ''#20c997''\<rparr>),
      (Green, \<lparr>info_name = ''Green'', info_hue = 120, info_color = ''#51cf66''\<rparr>),
      (Lime, \<lparr>info_name = ''Lime'', info_hue = 83, info_color = ''#94d82d''\<rparr>),
      (Yellow, \<lparr>info_name = ''Yellow'', info_hue = 44, info_color = ''#fcc419''\<rparr>),
      (Orange, \<lparr>info_name = ''Orange'', info_hue = 25, info_color = ''#ff922b''\<rparr>)]"

definition OPEN_COLOR_PALETTE :: "(OpenColorHue \<times> string list) list" where
  "OPEN_COLOR_PALETTE =
     [(Gray, [''#f8f9fa'', ''#f1f3f4'', ''#e9ecef'', ''#dee2e6'', ''#ced4da'', ''#adb5bd'', ''#868e96'', ''#495057'', ''#343a40'', ''#212529'']),
      (Red, [''#fff5f5'', ''#ffe3e3'', ''#ffc9c9'', ''#ffa8a8'', ''#ff8787'', ''#ff6b6b'', ''#fa5252'', ''#f03e3e'', ''#e03131'', ''#c92a2a'']),
      (Pink, [''#fff0f6'', ''#ffdeeb'', ''#fcc2d7'', ''#faa2c1'', ''#f783ac'', ''#f06595'', ''#e64980'', ''#d6336c'', ''#c2255c'', ''#a61e4d'']),
      (Grape, [''#f8f0fc'', ''#f3d9fa'', ''#eebefa'', ''#e599f7'', ''#da77f2'', ''#cc5de8'', ''#be4bdb'', ''#ae3ec9'', ''#9c36b5'', ''#862e9c'']),
      (Violet, [''#f3f0ff'', ''#e5dbff'', ''#d0bfff'', ''#b197fc'', ''#9775fa'', ''#845ef7'', ''#7950f2'', ''#7048e8'', ''#6741d9'', ''#5f3dc4'']),
      (Indigo, [''#edf2ff'', ''#dbe4ff'', ''#bac8ff'', ''#91a7ff'', ''#748ffc'', ''#5c7cfa'', ''#4c6ef5'', ''#4263eb'', ''#3b5bdb'', ''#364fc7'']),
      (Blue, [''#e7f5ff'', ''#d0ebff'', ''#a5d8ff'', ''#74c0fc'', ''#4dabf7'', ''#339af0'', ''#228be6'', ''#1c7ed6'', ''#1971c2'', ''#1864ab'']),
      (Cyan, [''#e3fafc'', ''#c5f6fa'', ''#99e9f2'', ''#66d9ef'', ''#3bc9db'', ''#22b8cf'', ''#15aabf'', ''#1098ad'', ''#0c8599'', ''#0b7285'']),
      (Teal, [''#e6fcf5'', ''#c3fae8'', ''#96f2d7'', ''#63e6be'', ''#38d9a9'', ''#20c997'', ''#12b886'', ''#0ca678'', ''#099268'', ''#087f5b'']),
      (Green, [''#ebfbee'', ''#d3f9d8'', ''#b2f2bb'', ''#8ce99a'', ''#69db7c'', ''#51cf66'', ''#40c057'', ''#37b24d'', ''#2f9e44'', ''#2b8a3e'']),
      (Lime, [''#f4fce3'', ''#e9fac8'', ''#d8f5a2'', ''#c0eb75'', ''#a9e34b'', ''#94d82d'', ''#82c91e'', ''#74b816'', ''#66a80f'', ''#5c940d'']),
      (Yellow, [''#fff9db'', ''#fff3bf'', ''#ffec99'', ''#ffe066'', ''#ffd43b'', ''#fcc419'', ''#fab005'', ''#f59f00'', ''#f08c00'', ''#e67700'']),
      (Orange, [''#fff4e6'', ''#ffe8cc'', ''#ffd8a8'', ''#ffc078'', ''#ffa94d'', ''#ff922b'', ''#fd7e14'', ''#f76707'', ''#e8590c'', ''#d9480f''])]"

text \<open>The keys of \<open>OPEN_COLOR_HUES\<close>, in the order of the table.\<close>

definition hueKeys :: "OpenColorHue list" where
  "hueKeys =
     [Gray, Red, Pink, Grape, Violet, Indigo, Blue, Cyan, Teal, Green, Lime, Yellow, Orange]"

text \<open>The lookups \<open>OPEN_COLOR_HUES[hue]\<close> and \<open>OPEN_COLOR_PALETTE[hue]\<close>. Every family is a
  key of both tables (lemmas \<open>hueInfo_defined\<close> and \<open>paletteShades_defined\<close>), so the
  second branch of each is never taken.\<close>

definition hueInfo :: "OpenColorHue \<Rightarrow> HueInfo" where
  "hueInfo hue =
     (case map_of OPEN_COLOR_HUES hue of
        Some i \<Rightarrow> i
      | None \<Rightarrow> \<lparr>info_name = [], info_hue = 0, info_color = []\<rparr>)"

definition paletteShades :: "OpenColorHue \<Rightarrow> string list" where
  "paletteShades hue = (case map_of OPEN_COLOR_PALETTE hue of Some xs \<Rightarrow> xs | None \<Rightarrow> [])"

section \<open>The hue classifier\<close>

definition calculateHueDistance :: "real \<Rightarrow> real \<Rightarrow> real" where
  "calculateHueDistance hue1 hue2 = (let diff = \<bar>hue1 - hue2\<bar> in min diff (360 - diff))"

definition findClosestOpenColorHue :: "externals \<Rightarrow> string \<Rightarrow> OpenColorHue" where
  "findClosestOpenColorHue lib hexColor =
     (let c = toHsl lib hexColor in
      if hsl_s c < 15 then Gray
      else fst (foldl
        (\<lambda>(closestHue, minDistance) (key, v).
           if key = Gray then (closestHue, minDistance)
           else (let d = calculateHueDistance (hsl_h c) (info_hue v) in
                 if d < minDistance then (key, d) else (closestHue, minDistance)))
        (Red, 180) OPEN_COLOR_HUES))"

definition findClosestOpenColorShade :: "real \<Rightarrow> nat" where
  "findClosestOpenColorShade lightness =
     (let normalizedLightness = lightness / 100;
          shadeIndex = js_round ((1 - normalizedLightness) * 9)
      in nat (max 0 (min 9 shadeIndex)))"

definition calculateColorDistance :: "externals \<Rightarrow> string \<Rightarrow> string \<Rightarrow> real" where
  "calculateColorDistance lib hex1 hex2 =
     (let rgb1 = toRgb lib hex1; rgb2 = toRgb lib hex2;
          dr = rgb_r rgb1 - rgb_r rgb2;
          dg = rgb_g rgb1 - rgb_g rgb2;
          db = rgb_b rgb1 - rgb_b rgb2
      in sqrt (dr * dr + dg * dg + db * db))"

record OpenColorReference =
  ref_hue :: OpenColorHue
  ref_shade :: nat
  ref_distance :: real

definition findClosestOpenColor :: "externals \<Rightarrow> string \<Rightarrow> OpenColorReference" where
  "findClosestOpenColor lib hexColor =
     (let c = toHsl lib hexColor;
          closestHue = findClosestOpenColorHue lib hexColor;
          closestShade = findClosestOpenColorShade (hsl_l c);
          referenceColor = paletteShades closestHue ! closestShade
      in \<lparr>ref_hue = closestHue, ref_shade = closestShade,
          ref_distance = calculateColorDistance lib hexColor referenceColor\<rparr>)"

text \<open>The grouping object has the keys of \<open>OPEN_COLOR_HUES\<close>, in their order, each with
  the list that \<open>push\<close> has extended.\<close>

definition groupColorsByOpenColorHue ::
  "externals \<Rightarrow> string list \<Rightarrow> (OpenColorHue \<times> string list) list" where
  "groupColorsByOpenColorHue lib cs =
     foldl (\<lambda>grouped c. AList.map_entry (findClosestOpenColorHue lib c) (\<lambda>xs. xs @ [c]) grouped)
       (map (\<lambda>(k, _). (k, [])) OPEN_COLOR_HUES) cs"

section \<open>The input collection\<close>

record ColorOccurrence =
  occ_file :: string
  occ_line :: int
  occ_context :: string
  occ_type :: string
  subType :: "string option"
  cssProperty :: "string option"

record ColorRepresentations =
  rep_hex :: "string list"
  rep_rgb :: "string list"
  rep_hsl :: "string list"
  rep_named :: "string list"

record ColorAliases =
  scssVariables :: "string list"
  cssCustomProperties :: "string list"
  tailwindClasses :: "string list"
  designTokens :: "string list"

record ColorData =
  hexValue :: string
  data_hue :: real
  primaryCategory :: string
  usagePattern :: string
  semanticMeaning :: "string list option"
  occurrences :: "ColorOccurrence list"
  representations :: ColorRepresentations
  aliases :: ColorAliases

text \<open>The part of a sample that the engine reads.\<close>

definition usedPart :: "ColorData \<Rightarrow> string \<times> ColorOccurrence list" where
  "usedPart c = (hexValue c, occurrences c)"

text \<open>A \<open>ColorDataMap\<close> is an object from keys to samples; it is given as the list of
  its entries in the order in which \<open>Object.values\<close> enumerates them.\<close>

type_synonym ColorDataMap = "(string \<times> ColorData) list"

section \<open>The group statistics engine\<close>

definition SPECTRAL_ORDER :: "OpenColorHue list" where
  "SPECTRAL_ORDER =
     [Red, Pink, Grape, Violet, Indigo, Blue, Cyan, Teal, Green, Lime, Yellow, Orange, Gray]"

text \<open>\<open>Array.prototype.indexOf\<close>: the first position of an element, or \<open>-1\<close>.\<close>

primrec indexOf :: "'a list \<Rightarrow> 'a \<Rightarrow> int" where
  "indexOf [] x = - 1"
| "indexOf (y # ys) x =
     (if y = x then 0 else (let i = indexOf ys x in if i = - 1 then - 1 else i + 1))"

definition getSpectralIndex :: "OpenColorHue \<Rightarrow> int" where
  "getSpectralIndex hue = (let i = indexOf SPECTRAL_ORDER hue in if i = - 1 then 999 else i)"

record TripleHueConfig =
  enabled :: bool
  highlightThreshold :: "real option"
  shadowThreshold :: "real option"

text \<open>The expression \<open>tripleHueConfig?.enabled\<close>: undefined when no configuration is
  given.\<close>

definition configEnabled :: "TripleHueConfig option \<Rightarrow> bool option" where
  "configEnabled cfg = map_option enabled cfg"

record AverageHSL =
  avgHue :: real
  avgChroma :: real
  avgLightness :: real
  highlightHue :: "real option"
  midtoneHue :: "real option"
  shadowHue :: "real option"
  highlightColors :: "string list option"
  midtoneColors :: "string list option"
  shadowColors :: "string list option"

record HueAnalysis = AverageHSL +
  ha_hue :: OpenColorHue
  ha_colors :: "string list"
  usage :: nat

text \<open>The angle \<open>(hue * Math.PI) / 180\<close>, and the sum that \<open>reduce\<close> accumulates from
  0.\<close>

definition toRadians :: "real \<Rightarrow> real" where
  "toRadians hue = dbl (dbl (hue * MathPI) / 180)"

definition sumDoubles :: "real list \<Rightarrow> real" where
  "sumDoubles xs = foldl (\<lambda>acc x. dbl (acc + x)) 0 xs"

definition calculateCircularMean :: "externals \<Rightarrow> real list \<Rightarrow> real" where
  "calculateCircularMean lib hues =
     (if length hues = 0 then 0
      else
        (let vectors = map (\<lambda>hue. (mathCos lib (toRadians hue), mathSin lib (toRadians hue)))
                         hues;
             avgX = dbl (sumDoubles (map fst vectors) / real (length vectors));
             avgY = dbl (sumDoubles (map snd vectors) / real (length vectors));
             a = dbl (dbl (mathAtan2 lib avgY avgX * 180) / MathPI)
         in if a < 0 then dbl (a + 360) else a))"

definition separateIntoThreeGroups ::
  "externals \<Rightarrow> string list \<Rightarrow> real \<Rightarrow> real \<Rightarrow> string list \<times> string list \<times> string list" where
  "separateIntoThreeGroups lib cs highlightT shadowT =
     foldl
       (\<lambda>(highlights, midtones, shadows) c.
          if hsl_l (toHsl lib c) \<ge> highlightT then (highlights @ [c], midtones, shadows)
          else if hsl_l (toHsl lib c) \<ge> shadowT then (highlights, midtones @ [c], shadows)
          else (highlights, midtones, shadows @ [c]))
       ([], [], []) cs"

text \<open>The operator \<open>??\<close> on an optional number.\<close>

definition orElse :: "real option \<Rightarrow> real option \<Rightarrow> real option" where
  "orElse x d = (case x of None \<Rightarrow> d | Some v \<Rightarrow> Some v)"

text \<open>The fallback of \<open>calculateAverageHSL\<close> for zones without members.\<close>

definition fillMissingHues ::
  "real \<Rightarrow> real option \<times> real option \<times> real option \<Rightarrow>
   real option \<times> real option \<times> real option" where
  "fillMissingHues avgH zones =
     (case zones of (hh, mh, sh) \<Rightarrow>
        if hh = None \<and> mh = None \<and> sh = None then (Some avgH, Some avgH, Some avgH)
        else
          (case filter (\<lambda>x. x \<noteq> None) [hh, mh, sh] of
             [] \<Rightarrow> (hh, mh, sh)
           | fallbackHue # _ \<Rightarrow>
               (orElse hh fallbackHue, orElse mh fallbackHue, orElse sh fallbackHue)))"

text \<open>The blend of the midtone with the average of highlight and shadow, when all three
  hues are defined.\<close>

definition blendMidtone ::
  "real option \<times> real option \<times> real option \<Rightarrow> real option \<times> real option \<times> real option" where
  "blendMidtone zones =
     (case zones of
        (Some hh, Some mh, Some sh) \<Rightarrow>
          (let extremesAverage = interpolateHue sh hh (1 / 2)
           in (Some hh, Some (interpolateHue mh extremesAverage (1 / 2)), Some sh))
      | _ \<Rightarrow> zones)"

definition zoneHue :: "externals \<Rightarrow> string list \<Rightarrow> real option" where
  "zoneHue lib zone =
     (if zone \<noteq> [] then Some (calculateCircularMean lib (map hsl_h (map (toHsl lib) zone)))
      else None)"

definition calculateAverageHSL ::
  "externals \<Rightarrow> string list \<Rightarrow> OpenColorHue \<Rightarrow> TripleHueConfig option \<Rightarrow> AverageHSL" where
  "calculateAverageHSL lib cs hueCategory cfg =
     (if cs = [] then
        \<lparr>avgHue = 0, avgChroma = 0, avgLightness = 0,
         highlightHue = None, midtoneHue = None, shadowHue = None,
         highlightColors = None, midtoneColors = None, shadowColors = None\<rparr>
      else if hueCategory = Gray then
        (let hslValues = map (toHsl lib) cs;
             totalLightness = foldl (\<lambda>acc v. acc + hsl_l v) 0 hslValues
         in \<lparr>avgHue = 210, avgChroma = 5, avgLightness = totalLightness / real (length cs),
             highlightHue = None, midtoneHue = None, shadowHue = None,
             highlightColors = None, midtoneColors = None, shadowColors = None\<rparr>)
      else
        (let chromaticColors = filter (\<lambda>c. hsl_s (toHsl lib c) \<ge> 15) cs in
         if chromaticColors = [] then
           \<lparr>avgHue = info_hue (hueInfo hueCategory), avgChroma = 50, avgLightness = 50,
            highlightHue = None, midtoneHue = None, shadowHue = None,
            highlightColors = None, midtoneColors = None, shadowColors = None\<rparr>
         else
           (let hslValues = map (toHsl lib) chromaticColors;
                avgH = calculateCircularMean lib (map hsl_h hslValues);
                totalSaturation = foldl (\<lambda>acc v. acc + hsl_s v) 0 hslValues;
                totalLightness = foldl (\<lambda>acc v. acc + hsl_l v) 0 hslValues;
                avgC = totalSaturation / real (length chromaticColors);
                avgL = totalLightness / real (length chromaticColors)
            in
              (case cfg of
                 None \<Rightarrow>
                   \<lparr>avgHue = avgH, avgChroma = avgC, avgLightness = avgL,
                    highlightHue = None, midtoneHue = None, shadowHue = None,
                    highlightColors = None, midtoneColors = None, shadowColors = None\<rparr>
               | Some conf \<Rightarrow>
                   if \<not> enabled conf then
                     \<lparr>avgHue = avgH, avgChroma = avgC, avgLightness = avgL,
                      highlightHue = None, midtoneHue = None, shadowHue = None,
                      highlightColors = None, midtoneColors = None, shadowColors = None\<rparr>
                   else
                     (case separateIntoThreeGroups lib chromaticColors
                             (case highlightThreshold conf of None \<Rightarrow> 66 | Some t \<Rightarrow> t)
                             (case shadowThreshold conf of None \<Rightarrow> 33 | Some t \<Rightarrow> t) of
                        (highlights, midtones, shadows) \<Rightarrow>
                          (case blendMidtone (fillMissingHues avgH
                                  (zoneHue lib highlights, zoneHue lib midtones,
                                   zoneHue lib shadows)) of
                             (hh, mh, sh) \<Rightarrow>
                               \<lparr>avgHue = avgH, avgChroma = avgC, avgLightness = avgL,
                                highlightHue = hh, midtoneHue = mh, shadowHue = sh,
                                highlightColors = Some highlights,
                                midtoneColors = Some midtones,
                                shadowColors = Some shadows\<rparr>))))))"

section \<open>The shade synthesizer\<close>

definition lightnessSteps :: "real list" where
  "lightnessSteps = [96, 90, 82, 70, 56, 45, 37, 29, 22, 16]"

text \<open>The condition \<open>useTripleHue\<close> of \<open>generateOpenColorShades\<close>.\<close>

definition useTripleHue ::
  "bool option \<Rightarrow> real option \<Rightarrow> real option \<Rightarrow> real option \<Rightarrow> bool" where
  "useTripleHue tripleHueMd hh mh sh =
     (tripleHueMd = Some True \<and> hh \<noteq> None \<and> mh \<noteq> None \<and> sh \<noteq> None \<and>
      (case (hh, mh, sh) of
         (Some a, Some b, Some c) \<Rightarrow> \<bar>a - b\<bar> > 5 \<or> \<bar>b - c\<bar> > 5
       | _ \<Rightarrow> False))"

definition getChromaForLightness :: "jsnum \<Rightarrow> real \<Rightarrow> jsnum" where
  "getChromaForLightness baseChroma lightness =
     (let numericChroma = js_min (Num 100) (js_max (Num 0) baseChroma) in
      if lightness > 85 then js_scale numericChroma (7 / 10)
      else if lightness > 75 then js_scale numericChroma (85 / 100)
      else if lightness > 35 then numericChroma
      else if lightness > 20 then js_scale numericChroma (85 / 100)
      else js_scale numericChroma (7 / 10))"

text \<open>The three-zone interpolation of one shade, from the highlight, midtone and shadow
  hues.\<close>

definition threeZoneHue :: "real \<Rightarrow> real \<Rightarrow> real \<Rightarrow> real \<Rightarrow> real" where
  "threeZoneHue hh mh sh lightness =
     (if lightness \<ge> 75 then
        (let factor = max 0 (min 1 ((lightness - 75) / (96 - 75)))
         in interpolateHue mh hh factor)
      else if lightness \<ge> 40 then
        (let factor = (lightness - 40) / (75 - 40) in
         if factor < 1 / 2 then interpolateHue sh mh (factor * 2)
         else interpolateHue mh hh ((factor - 1 / 2) * 2))
      else
        (let factor = max 0 (min 1 ((lightness - 16) / (40 - 16)))
         in interpolateHue sh mh factor))"

text \<open>The hue \<open>hueToUse\<close> of one shade. Under \<open>useTripleHue\<close> the three hues are
  defined, so the last case of the inner distinction is never taken.\<close>

definition hueToUse ::
  "real \<Rightarrow> bool option \<Rightarrow> real option \<Rightarrow> real option \<Rightarrow> real option \<Rightarrow> real \<Rightarrow> real" where
  "hueToUse baseHue tripleHueMd hh mh sh lightness =
     (if useTripleHue tripleHueMd hh mh sh then
        (case (hh, mh, sh) of
           (Some a, Some b, Some c) \<Rightarrow> threeZoneHue a b c lightness
         | _ \<Rightarrow> js_rem (js_rem baseHue 360 + 360) 360)
      else js_rem (js_rem baseHue 360 + 360) 360)"

definition generateOpenColorShades ::
  "externals \<Rightarrow> real \<Rightarrow> jsnum \<Rightarrow> OpenColorHue \<Rightarrow> bool option \<Rightarrow>
   real option \<Rightarrow> real option \<Rightarrow> real option \<Rightarrow> string list" where
  "generateOpenColorShades lib baseHue baseChroma hueCategory tripleHueMd hh mh sh =
     (if hueCategory = Gray then
        map (\<lambda>lightness. toHex lib \<lparr>in_h = 210, in_s = Num 8, in_l = lightness\<rparr>)
          lightnessSteps
      else
        map (\<lambda>lightness.
               toHex lib
                 \<lparr>in_h = hueToUse baseHue tripleHueMd hh mh sh lightness,
                  in_s = js_min (Num 100)
                           (js_max (Num 0) (getChromaForLightness baseChroma lightness)),
                  in_l = min 100 (max 0 lightness)\<rparr>)
          lightnessSteps)"

section \<open>Scheme generation\<close>

record GeneratedColorScheme =
  gs_hue :: OpenColorHue
  gs_name :: string
  shades :: "string list"
  analysis :: HueAnalysis
  tripleHueMode :: "bool option"

record ColorSchemeAnalysis =
  totalColors :: nat
  hueAnalyses :: "HueAnalysis list"
  generatedSchemes :: "GeneratedColorScheme list"
  openColorMapping :: "(string \<times> OpenColorReference) list"
  tripleHueConfig :: "TripleHueConfig option"

text \<open>The usage of a group: for every member, the number of occurrences of the first
  sample with that hex value.\<close>

definition groupUsage :: "ColorData list \<Rightarrow> string list \<Rightarrow> nat" where
  "groupUsage samples hueColors =
     foldl (\<lambda>acc hexColor.
              acc + (case find (\<lambda>c. hexValue c = hexColor) samples of
                       None \<Rightarrow> 0
                     | Some d \<Rightarrow> length (occurrences d)))
       0 hueColors"

definition analyzeGroup ::
  "externals \<Rightarrow> ColorData list \<Rightarrow> TripleHueConfig option \<Rightarrow>
   OpenColorHue \<times> string list \<Rightarrow> HueAnalysis" where
  "analyzeGroup lib samples cfg entry =
     (case entry of (hue, hueColors) \<Rightarrow>
        (let r = calculateAverageHSL lib hueColors hue cfg in
         \<lparr>avgHue = avgHue r, avgChroma = avgChroma r, avgLightness = avgLightness r,
          highlightHue = highlightHue r, midtoneHue = midtoneHue r, shadowHue = shadowHue r,
          highlightColors = highlightColors r, midtoneColors = midtoneColors r,
          shadowColors = shadowColors r,
          ha_hue = hue, ha_colors = hueColors, usage = groupUsage samples hueColors\<rparr>))"

definition computeHueAnalyses ::
  "externals \<Rightarrow> ColorData list \<Rightarrow> TripleHueConfig option \<Rightarrow> HueAnalysis list" where
  "computeHueAnalyses lib samples cfg =
     sort_key (\<lambda>a. getSpectralIndex (ha_hue a))
       (map (analyzeGroup lib samples cfg)
          (filter (\<lambda>(hue, hueColors). hueColors \<noteq> [])
             (groupColorsByOpenColorHue lib (map hexValue samples))))"

definition globalChroma :: "HueAnalysis list \<Rightarrow> jsnum" where
  "globalChroma analyses =
     js_div (foldl (\<lambda>acc a. acc + avgChroma a) 0 analyses) (real (length analyses))"

definition makeScheme ::
  "externals \<Rightarrow> TripleHueConfig option \<Rightarrow> jsnum \<Rightarrow> HueAnalysis \<Rightarrow> GeneratedColorScheme" where
  "makeScheme lib cfg gChroma a =
     \<lparr>gs_hue = ha_hue a,
      gs_name = info_name (hueInfo (ha_hue a)),
      shades = generateOpenColorShades lib (avgHue a) (js_max (Num (avgChroma a)) gChroma)
                 (ha_hue a) (configEnabled cfg) (highlightHue a) (midtoneHue a) (shadowHue a),
      analysis = a,
      tripleHueMode = configEnabled cfg\<rparr>"

text \<open>Whether the call of \<open>generateOpenColorShades\<close> that the orchestration makes for an
  analysis takes the three-zone branch: the family is not the neutral one (for which the
  function returns before) and \<open>useTripleHue\<close> holds of the arguments passed.\<close>

definition interpolationUsed :: "TripleHueConfig option \<Rightarrow> HueAnalysis \<Rightarrow> bool" where
  "interpolationUsed cfg a =
     (ha_hue a \<noteq> Gray \<and>
      useTripleHue (configEnabled cfg) (highlightHue a) (midtoneHue a) (shadowHue a))"

definition analyzeColorsForSchemeGeneration ::
  "externals \<Rightarrow> ColorDataMap \<Rightarrow> TripleHueConfig option \<Rightarrow> ColorSchemeAnalysis" where
  "analyzeColorsForSchemeGeneration lib colorData cfg =
     (let samples = map snd colorData;
          mapping = foldl (\<lambda>acc c. AList.update (hexValue c)
                                     (findClosestOpenColor lib (hexValue c)) acc) [] samples;
          analyses = computeHueAnalyses lib samples cfg;
          gChroma = globalChroma analyses;
          schemes = map (makeScheme lib cfg gChroma) (filter (\<lambda>a. usage a > 0) analyses)
      in \<lparr>totalColors = length samples,
          hueAnalyses = analyses,
          generatedSchemes = schemes,
          openColorMapping = mapping,
          tripleHueConfig = cfg\<rparr>)"

text \<open>The body of the loop over the generated schemes in
  \<open>generateCompleteOpenColorPalette\<close>.\<close>

definition replaceShades ::
  "(OpenColorHue \<times> string list) list \<Rightarrow> GeneratedColorScheme \<Rightarrow>
   (OpenColorHue \<times> string list) list" where
  "replaceShades p scheme =
     (if usage (analysis scheme) \<ge> 1 then AList.update (gs_hue scheme) (shades scheme) p else p)"

definition generateCompleteOpenColorPalette ::
  "externals \<Rightarrow> ColorDataMap \<Rightarrow> TripleHueConfig option \<Rightarrow> (OpenColorHue \<times> string list) list" where
  "generateCompleteOpenColorPalette lib colorData cfg =
     (let a = analyzeColorsForSchemeGeneration lib colorData cfg;
          palette = foldl (\<lambda>p (hue, xs). AList.update hue xs p) [] OPEN_COLOR_PALETTE
      in foldl replaceShades palette (generatedSchemes a))"

section \<open>The scheme matcher\<close>

record ColorMatch =
  cm_color :: string
  cm_hue :: OpenColorHue
  cm_shade :: nat
  schemeName :: string
  cm_distance :: jsnum
  colorName :: string

text \<open>The decimal text of a shade index in a template string.\<close>

fun digitsOf :: "nat \<Rightarrow> string" where
  "digitsOf n =
     (if n < 10 then [char_of (48 + n)] else digitsOf (n div 10) @ [char_of (48 + n mod 10)])"

definition defaultMatch :: ColorMatch where
  "defaultMatch =
     \<lparr>cm_color = ''#000000'', cm_hue = Gray, cm_shade = 9, schemeName = ''Gray'',
      cm_distance = PosInf, colorName = ''gray-9''\<rparr>"

definition findClosestSchemeColor :: "externals \<Rightarrow> string \<Rightarrow> ColorSchemeAnalysis \<Rightarrow> ColorMatch" where
  "findClosestSchemeColor lib inputColor a =
     foldl
       (\<lambda>closest scheme.
          foldl
            (\<lambda>closestMatch (shadeIndex, shadeColor).
               (let d = calculateColorDistance lib inputColor shadeColor in
                if js_less (Num d) (cm_distance closestMatch) then
                  \<lparr>cm_color = shadeColor, cm_hue = gs_hue scheme, cm_shade = shadeIndex,
                   schemeName = gs_name scheme, cm_distance = Num d,
                   colorName = hueKey (gs_hue scheme) @ ''-'' @ digitsOf shadeIndex\<rparr>
                else closestMatch))
            closest (enumerate 0 (shades scheme)))
       defaultMatch (generatedSchemes a)"

section \<open>A sample of the colour library and of the input\<close>

text \<open>
  The examples instantiate the three conversions with the usual ones on six-digit hex
  strings \<open>#rrggbb\<close>: the channels are read from the string, hue, saturation and
  lightness are computed from them and rounded to integers, and an HSL triple is turned
  into channels rounded to integers and written as a hex string. Any other string is read
  as black.
\<close>

definition hexDigit :: "char \<Rightarrow> nat option" where
  "hexDigit c =
     (let n = (of_char c :: nat) in
      if 48 \<le> n \<and> n \<le> 57 then Some (n - 48)
      else if 97 \<le> n \<and> n \<le> 102 then Some (n - 87)
      else if 65 \<le> n \<and> n \<le> 70 then Some (n - 55)
      else None)"

definition hexByte :: "char \<Rightarrow> char \<Rightarrow> nat option" where
  "hexByte a b =
     (case hexDigit a of
        None \<Rightarrow> None
      | Some x \<Rightarrow> (case hexDigit b of None \<Rightarrow> None | Some y \<Rightarrow> Some (16 * x + y)))"

definition black :: rgb where
  "black = \<lparr>rgb_r = 0, rgb_g = 0, rgb_b = 0\<rparr>"

definition sampleRgb :: "string \<Rightarrow> rgb" where
  "sampleRgb hex =
     (if length hex = 7 \<and> hex ! 0 = CHR ''#'' then
        (case hexByte (hex ! 1) (hex ! 2) of
           None \<Rightarrow> black
         | Some r \<Rightarrow>
             (case hexByte (hex ! 3) (hex ! 4) of
                None \<Rightarrow> black
              | Some g \<Rightarrow>
                  (case hexByte (hex ! 5) (hex ! 6) of
                     None \<Rightarrow> black
                   | Some b \<Rightarrow> \<lparr>rgb_r = real r, rgb_g = real g, rgb_b = real b\<rparr>)))
      else black)"

definition sampleHsl :: "string \<Rightarrow> hsl" where
  "sampleHsl hex =
     (let c = sampleRgb hex;
          r = rgb_r c; g = rgb_g c; b = rgb_b c;
          mx = max r (max g b);
          mn = min r (min g b);
          d = mx - mn;
          hh = (if d = 0 then 0
                else if mx = r then 60 * ((g - b) / d) + (if g < b then 360 else 0)
                else if mx = g then 60 * ((b - r) / d + 2)
                else 60 * ((r - g) / d + 4));
          ss = (if d = 0 then 0 else d / (255 - \<bar>mx + mn - 255\<bar>) * 100);
          ll = (mx + mn) / 2 / 255 * 100
      in \<lparr>hsl_h = of_int (js_round hh), hsl_s = of_int (js_round ss),
          hsl_l = of_int (js_round ll)\<rparr>)"

definition hexChar :: "nat \<Rightarrow> char" where
  "hexChar n = (if n < 10 then char_of (48 + n) else char_of (87 + n))"

definition hexPair :: "int \<Rightarrow> string" where
  "hexPair v = (let n = nat (max 0 (min 255 v)) in [hexChar (n div 16), hexChar (n mod 16)])"

definition sampleHex :: "hslInput \<Rightarrow> string" where
  "sampleHex c =
     (let hn = js_rem (js_rem (in_h c) 360 + 360) 360;
          sv = (case in_s c of Num v \<Rightarrow> max 0 (min 100 v) | PosInf \<Rightarrow> 100 | _ \<Rightarrow> 0) / 100;
          lv = max 0 (min 100 (in_l c)) / 100;
          ch = (1 - \<bar>2 * lv - 1\<bar>) * sv;
          hp = hn / 60;
          x = ch * (1 - \<bar>js_rem hp 2 - 1\<bar>);
          m = lv - ch / 2;
          r = (if hp < 1 then ch else if hp < 2 then x else if hp < 4 then 0
               else if hp < 5 then x else ch);
          g = (if hp < 1 then x else if hp < 3 then ch else if hp < 4 then x else 0);
          b = (if hp < 2 then 0 else if hp < 3 then x else if hp < 5 then ch else x)
      in CHR ''#'' # hexPair (js_round ((r + m) * 255)) @ hexPair (js_round ((g + m) * 255))
           @ hexPair (js_round ((b + m) * 255)))"

text \<open>
  For \<open>Math.cos\<close>, \<open>Math.sin\<close> and \<open>Math.atan2\<close> the sample has the correctly rounded
  functions (the double nearest to the exact value) at the arguments of the run of
  \<open>calculateCircularMean\<close> on the hue lists \<open>[0]\<close>, \<open>[10]\<close>, \<open>[350]\<close>, \<open>[350, 10]\<close> and
  \<open>[0, 90, 180, 270]\<close>, each double written as a fraction: the angles of 10, 350, 90, 180
  and 270 degrees in radians, their cosines and sines, the averaged vectors of the last
  two lists (the first has the cosine of 350 degrees as its other coordinate), and the
  arctangents. At any other argument the sample has the exact function.
\<close>

definition rad10 :: real where
  "rad10 = 6288211335136391 / 36028797018963968"

definition rad350 :: real where
  "rad350 = 6877731147805427 / 1125899906842624"

definition rad90 :: real where
  "rad90 = 884279719003555 / 562949953421312"

definition rad180 :: real where
  "rad180 = 884279719003555 / 281474976710656"

definition rad270 :: real where
  "rad270 = 2652839157010665 / 562949953421312"

definition cos10 :: real where
  "cos10 = 8870359658994711 / 9007199254740992"

definition sin10 :: real where
  "sin10 = 6256334945874825 / 36028797018963968"

definition cos350 :: real where
  "cos350 = 4435179829497355 / 4503599627370496"

definition sin350 :: real where
  "sin350 = - (6256334945874859 / 36028797018963968)"

definition cos90 :: real where
  "cos90 = 4967757600021511 / 81129638414606681695789005144064"

definition sin180 :: real where
  "sin180 = 4967757600021511 / 40564819207303340847894502572032"

definition cos270 :: real where
  "cos270 = - (3725818200016133 / 20282409603651670423947251286016)"

definition seamY :: real where
  "seamY = - (17 / 36028797018963968)"

definition crossX :: real where
  "crossX = - (3725818200016133 / 81129638414606681695789005144064)"

definition crossY :: real where
  "crossY = 1 / 18014398509481984"

definition atan10 :: real where
  "atan10 = 6288211335136391 / 36028797018963968"

definition atan350 :: real where
  "atan350 = - (6288211335136425 / 36028797018963968)"

definition atanSeam :: real where
  "atanSeam = - (607361511605331 / 1267650600228229401496703205376)"

definition atanCross :: real where
  "atanCross = 5093485784993079 / 2251799813685248"

definition sampleCos :: "real \<Rightarrow> real" where
  "sampleCos x =
     (if x = 0 then 1
      else if x = rad10 then cos10
      else if x = rad350 then cos350
      else if x = rad90 then cos90
      else if x = rad180 then - 1
      else if x = rad270 then cos270
      else cos x)"

definition sampleSin :: "real \<Rightarrow> real" where
  "sampleSin x =
     (if x = 0 then 0
      else if x = rad10 then sin10
      else if x = rad350 then sin350
      else if x = rad90 then 1
      else if x = rad180 then sin180
      else if x = rad270 then - 1
      else sin x)"

definition sampleAtan2 :: "real \<Rightarrow> real \<Rightarrow> real" where
  "sampleAtan2 y x =
     (if y = 0 \<and> x = 1 then 0
      else if y = sin10 \<and> x = cos10 then atan10
      else if y = sin350 \<and> x = cos350 then atan350
      else if y = seamY \<and> x = cos350 then atanSeam
      else if y = crossY \<and> x = crossX then atanCross
      else js_atan2 y x)"

definition sampleLib :: externals where
  "sampleLib =
     \<lparr>toHsl = sampleHsl, toRgb = sampleRgb, toHex = sampleHex,
      mathCos = sampleCos, mathSin = sampleSin, mathAtan2 = sampleAtan2\<rparr>"

definition sampleOccurrence :: ColorOccurrence where
  "sampleOccurrence =
     \<lparr>occ_file = ''header.css'', occ_line = 10, occ_context = ''background-color'',
      occ_type = ''background'', subType = None, cssProperty = None\<rparr>"

definition mkSample :: "string \<Rightarrow> real \<Rightarrow> string \<Rightarrow> ColorOccurrence list \<Rightarrow> ColorData" where
  "mkSample hex hueField category occs =
     \<lparr>hexValue = hex, data_hue = hueField, primaryCategory = category,
      usagePattern = ''global-design-system'', semanticMeaning = None, occurrences = occs,
      representations = \<lparr>rep_hex = [hex], rep_rgb = [], rep_hsl = [], rep_named = []\<rparr>,
      aliases = \<lparr>scssVariables = [], cssCustomProperties = [], tailwindClasses = [],
                 designTokens = []\<rparr>\<rparr>"

text \<open>A used red.\<close>

definition usedRed :: ColorDataMap where
  "usedRed = [(''red'', mkSample ''#ff0000'' 0 ''brand'' [sampleOccurrence])]"

text \<open>A red that is listed without any occurrence, and a used grey.\<close>

definition unusedRedUsedGrey :: ColorDataMap where
  "unusedRedUsedGrey =
     [(''red'', mkSample ''#ff0000'' 0 ''brand'' []),
      (''grey'', mkSample ''#808080'' 0 ''brand'' [sampleOccurrence])]"

text \<open>Two reds of the red family: a light one of hue 10 and a medium one of hue 350.\<close>

definition twoReds :: ColorDataMap where
  "twoReds =
     [(''light'', mkSample ''#ffaa99'' 10 ''brand'' [sampleOccurrence]),
      (''medium'', mkSample ''#ff002b'' 350 ''brand'' [sampleOccurrence])]"

text \<open>The used red again, with another hue field and other metadata.\<close>

definition usedRedRelabelled :: ColorDataMap where
  "usedRedRelabelled = [(''red'', mkSample ''#ff0000'' 123 ''legacy'' [sampleOccurrence])]"

definition tripleHueOn :: "TripleHueConfig option" where
  "tripleHueOn = Some \<lparr>enabled = True, highlightThreshold = None, shadowThreshold = None\<rparr>"

section \<open>Properties of the number model\<close>

lemma js_rem_nonneg_small:
  assumes "0 \<le> x" "x < 360"
  shows "js_rem x 360 = x"
proof -
  have "\<lfloor>x / 360\<rfloor> = 0" using assms by (simp add: floor_eq_iff)
  then show ?thesis using assms by (simp add: js_rem_def js_trunc_def)
qed

lemma js_rem_360_360: "js_rem 360 360 = 0"
  by (simp add: js_rem_def js_trunc_def)

lemma js_rem_shift:
  assumes "0 \<le> x" "x < 360"
  shows "js_rem (x + 360) 360 = x"
proof -
  have "\<lfloor>(x + 360) / 360\<rfloor> = 1" using assms by (simp add: floor_eq_iff)
  then show ?thesis using assms by (simp add: js_rem_def js_trunc_def)
qed


lemma js_rem_second:
  assumes "360 \<le> x" "x < 720"
  shows "js_rem x 360 = x - 360"
  using js_rem_shift [of "x - 360"] assms by simp

section \<open>Rounding to a double\<close>

text \<open>
  \<open>dbl_eval\<close> and \<open>dbl_step\<close> compute a rounding from the exponent of the number;
  \<open>dbl_multiple\<close> says that a number with a significand of 53 bits is a double.
\<close>

lemma dbl_zero: "dbl 0 = 0"
  by (simp add: dbl_def)

lemma roundTiesToEven_int: "roundTiesToEven (of_int n) = n"
  by (simp add: roundTiesToEven_def)

lemma roundTiesToEven_le:
  assumes "y \<le> of_int N"
  shows "roundTiesToEven y \<le> N"
proof -
  have f: "\<lfloor>y\<rfloor> \<le> N" using assms by (simp add: floor_le_iff) 
  show ?thesis
  proof (cases "\<lfloor>y\<rfloor> = N")
    case True
    then have "y - of_int \<lfloor>y\<rfloor> \<le> 0" using assms by simp
    then show ?thesis using True by (simp add: roundTiesToEven_def Let_def)
  next
    case False
    then have "\<lfloor>y\<rfloor> + 1 \<le> N" using f by simp
    then show ?thesis by (auto simp: roundTiesToEven_def Let_def)
  qed
qed

lemma roundTiesToEven_ge:
  assumes "of_int N \<le> y"
  shows "N \<le> roundTiesToEven y"
proof -
  have "N \<le> \<lfloor>y\<rfloor>" using assms by (simp add: le_floor_iff)
  then show ?thesis by (auto simp: roundTiesToEven_def Let_def)
qed

lemma dbl_eval:
  assumes "2 powr of_int e \<le> \<bar>x\<bar>" "\<bar>x\<bar> < 2 powr (of_int e + 1)" "- 1022 \<le> e"
  shows "dbl x = of_int (roundTiesToEven (x / 2 powr (of_int e - 52))) * 2 powr (of_int e - 52)"
proof -
  have p: "0 < \<bar>x\<bar>" using assms(1) by (smt (verit) powr_gt_zero)
  have "\<lfloor>log 2 \<bar>x\<bar>\<rfloor> = e"
    using assms(1,2) p by (simp add: floor_log_eq_powr_iff)
  then show ?thesis using p assms(3) by (simp add: dbl_def Let_def max_def)
qed

lemma dbl_multiple:
  assumes "\<bar>m\<bar> < 2 ^ 53" "- 1074 \<le> p"
  shows "dbl (of_int m * 2 powr of_int p) = of_int m * 2 powr of_int p"
proof (cases "m = 0")
  case True
  then show ?thesis by (simp add: dbl_def)
next
  case False
  define x where "x = real_of_int m * 2 powr of_int p"
  have x0: "x \<noteq> 0" using False by (simp add: x_def)
  have ax: "\<bar>x\<bar> = real_of_int \<bar>m\<bar> * 2 powr of_int p"
    by (simp add: x_def abs_mult)
  have "real_of_int \<bar>m\<bar> < real_of_int (2 ^ 53)"
    using assms(1) by (simp only: of_int_less_iff)
  then have "real_of_int \<bar>m\<bar> < 2 ^ 53" by simp
  then have "\<bar>x\<bar> < 2 ^ 53 * 2 powr of_int p"
    unfolding ax by (simp add: mult_strict_right_mono)
  also have "\<dots> = 2 powr (of_int p + 53)"
    by (simp add: powr_add)
  finally have "log 2 \<bar>x\<bar> < of_int p + 53"
    using x0 by (simp add: log_less_iff)
  then have e0: "\<lfloor>log 2 \<bar>x\<bar>\<rfloor> \<le> p + 52"
    by linarith
  define e where "e = max \<lfloor>log 2 \<bar>x\<bar>\<rfloor> (- 1022)"
  have ep: "e \<le> p + 52" using e0 assms(2) by (simp add: e_def)
  define k where "k = nat (p + 52 - e)"
  have kp: "of_int p = (real_of_int e - 52) + real k"
    using ep by (simp add: k_def)
  have q: "x / 2 powr (of_int e - 52) = of_int (m * 2 ^ k)"
    unfolding x_def kp by (simp add: powr_add powr_realpow)
  have "dbl x = of_int (roundTiesToEven (x / 2 powr (of_int e - 52))) * 2 powr (of_int e - 52)"
    using x0 by (simp add: dbl_def Let_def e_def)
  also have "\<dots> = of_int (m * 2 ^ k) * 2 powr (of_int e - 52)"
    unfolding q roundTiesToEven_int ..
  also have "\<dots> = x"
    unfolding x_def kp by (simp add: powr_add powr_realpow)
  finally show ?thesis by (simp add: x_def)
qed

lemma dbl_int:
  assumes "\<bar>k\<bar> < 2 ^ 53"
  shows "dbl (of_int k) = of_int k"
  using dbl_multiple [OF assms, of 0] by simp

lemma dbl_step:
  assumes "2 powr of_int e \<le> \<bar>x\<bar>" "\<bar>x\<bar> < 2 powr (of_int e + 1)" "- 1022 \<le> e"
    and "roundTiesToEven (x / 2 powr (of_int e - 52)) = n"
    and "y = of_int n * 2 powr (of_int e - 52)"
  shows "dbl x = y"
  unfolding dbl_eval [OF assms(1-3)] assms(4) assms(5) ..

lemma dbl_numeral: "numeral w < (2::int) ^ 53 \<Longrightarrow> dbl (numeral w) = numeral w"
  using dbl_int [of "numeral w"] by simp

lemma dbl_neg_numeral: "numeral w < (2::int) ^ 53 \<Longrightarrow> dbl (- numeral w) = - numeral w"
  using dbl_int [of "- numeral w"] by simp

lemma dbl_one: "dbl 1 = 1"
  using dbl_int [of 1] by simp

section \<open>Grouping\<close>

lemma map_other_keys:
  "k \<notin> fst ` set al \<Longrightarrow> map (\<lambda>(k', v). (k', if k' = k then f v else v)) al = al"
  by (induction al) auto

lemma map_entry_distinct:
  "distinct (map fst al) \<Longrightarrow>
   AList.map_entry k f al = map (\<lambda>(k', v). (k', if k' = k then f v else v)) al"
  by (induction al) (auto simp: map_other_keys)

lemma group_fold:
  "distinct (map fst g0) \<Longrightarrow>
   foldl (\<lambda>grouped c. AList.map_entry (f c) (\<lambda>xs. xs @ [c]) grouped) g0 cs =
   map (\<lambda>(k, xs). (k, xs @ filter (\<lambda>c. f c = k) cs)) g0"
proof (induction cs arbitrary: g0)
  case Nil
  then show ?case by simp
next
  case (Cons c cs)
  have d: "distinct (map fst (AList.map_entry (f c) (\<lambda>xs. xs @ [c]) g0))"
    using Cons.prems by (simp add: distinct_map_entry)
  show ?case
    apply (simp add: Cons.IH [OF d])
    apply (simp add: map_entry_distinct [OF Cons.prems])
    apply (auto simp: case_prod_beta)
    done
qed

lemma keys_table: "map fst OPEN_COLOR_HUES = hueKeys"
  by (simp add: OPEN_COLOR_HUES_def hueKeys_def)

lemma hueInfo_defined: "map_of OPEN_COLOR_HUES hue \<noteq> None"
  by (cases hue) (simp_all add: OPEN_COLOR_HUES_def)

lemma paletteShades_defined: "map_of OPEN_COLOR_PALETTE hue \<noteq> None"
  by (cases hue) (simp_all add: OPEN_COLOR_PALETTE_def)

lemma hueKeys_distinct: "distinct hueKeys"
  by (simp add: hueKeys_def)

lemma hueKeys_all: "hue \<in> set hueKeys"
  by (cases hue) (simp_all add: hueKeys_def)

lemma group_char:
  "groupColorsByOpenColorHue lib cs =
   map (\<lambda>k. (k, filter (\<lambda>c. findClosestOpenColorHue lib c = k) cs)) hueKeys"
proof -
  have d: "distinct (map fst (map (\<lambda>(k, _). (k, [])) OPEN_COLOR_HUES :: (OpenColorHue \<times> string list) list))"
    using hueKeys_distinct keys_table by (simp add: comp_def case_prod_beta)
  show ?thesis
    unfolding groupColorsByOpenColorHue_def group_fold [OF d]
    by (simp add: OPEN_COLOR_HUES_def hueKeys_def)
qed

lemma sum_single_key:
  "distinct ks \<Longrightarrow> k \<in> set ks \<Longrightarrow>
   (\<Sum>k'\<leftarrow>ks. if k = k' then {#x#} else {#}) = {#x#}"
proof (induction ks)
  case Nil
  then show ?case by simp
next
  case (Cons a ks)
  show ?case
  proof (cases "k = a")
    case True
    then have "k \<notin> set ks" using Cons.prems by simp
    then have "(\<Sum>k'\<leftarrow>ks. if k = k' then {#x#} else {#}) = {#}"
      by (induction ks) auto
    with True show ?thesis by simp
  next
    case False
    then show ?thesis using Cons by simp
  qed
qed

lemma mset_buckets:
  assumes "distinct ks" and "\<And>c. f c \<in> set ks"
  shows "mset (concat (map (\<lambda>k. filter (\<lambda>c. f c = k) cs) ks)) = mset cs"
proof (induction cs)
  case Nil
  show ?case by (simp add: mset_concat comp_def)
next
  case (Cons x cs)
  have "(\<Sum>k\<leftarrow>ks. mset (filter (\<lambda>c. f c = k) (x # cs))) =
        (\<Sum>k\<leftarrow>ks. (if f x = k then {#x#} else {#}) + mset (filter (\<lambda>c. f c = k) cs))"
    by (rule arg_cong [where f = sum_list]) (simp add: map_eq_conv)
  also have "\<dots> = (\<Sum>k\<leftarrow>ks. if f x = k then {#x#} else {#}) +
                   (\<Sum>k\<leftarrow>ks. mset (filter (\<lambda>c. f c = k) cs))"
    by (simp add: sum_list_addf)
  also have "\<dots> = {#x#} + mset cs"
    using Cons.IH sum_single_key [OF assms(1) assms(2), of x x]
    by (simp add: mset_concat comp_def)
  finally show ?case by (simp add: mset_concat comp_def)
qed

section \<open>The orchestration\<close>

lemma group_nil: "groupColorsByOpenColorHue lib [] = map (\<lambda>k. (k, [])) hueKeys"
  by (simp add: group_char)

lemma computeHueAnalyses_nil: "computeHueAnalyses lib [] cfg = []"
  by (simp add: computeHueAnalyses_def group_nil hueKeys_def)

lemma globalChroma_nil: "globalChroma [] = NaN"
  by (simp add: globalChroma_def js_div_def)

lemma analyze_nil:
  "analyzeColorsForSchemeGeneration lib [] cfg =
     \<lparr>totalColors = 0, hueAnalyses = [], generatedSchemes = [], openColorMapping = [],
      tripleHueConfig = cfg\<rparr>"
  by (simp add: analyzeColorsForSchemeGeneration_def computeHueAnalyses_nil)

lemma find_usedPart:
  "map usedPart xs = map usedPart ys \<Longrightarrow>
   (case find (\<lambda>c. hexValue c = x) xs of None \<Rightarrow> 0 | Some d \<Rightarrow> length (occurrences d)) =
   (case find (\<lambda>c. hexValue c = x) ys of None \<Rightarrow> 0 | Some d \<Rightarrow> length (occurrences d))"
proof (induction xs arbitrary: ys)
  case Nil
  then show ?case by simp
next
  case (Cons a xs)
  then obtain b ys' where ys: "ys = b # ys'" and ab: "usedPart a = usedPart b"
    and rest: "map usedPart xs = map usedPart ys'"
    by (cases ys) auto
  from ab have "hexValue a = hexValue b" "occurrences a = occurrences b"
    by (simp_all add: usedPart_def)
  with Cons.IH [OF rest] ys show ?case by simp
qed

lemma groupUsage_usedPart:
  assumes "map usedPart xs = map usedPart ys"
  shows "groupUsage xs = groupUsage ys"
proof
  fix hs
  show "groupUsage xs hs = groupUsage ys hs"
    unfolding groupUsage_def using find_usedPart [OF assms] by simp
qed

lemma hexValue_usedPart:
  assumes "map usedPart xs = map usedPart ys"
  shows "map hexValue xs = map hexValue ys"
proof -
  have "map fst (map usedPart xs) = map fst (map usedPart ys)"
    using assms by simp
  then show ?thesis by (simp add: usedPart_def comp_def)
qed

lemma mapping_by_hex:
  "foldl (\<lambda>acc c. AList.update (hexValue c) (g (hexValue c)) acc) m xs =
   foldl (\<lambda>acc h. AList.update h (g h) acc) m (map hexValue xs)"
  by (induction xs arbitrary: m) simp_all

lemma analyze_usedPart:
  assumes "map usedPart (map snd d1) = map usedPart (map snd d2)"
  shows "analyzeColorsForSchemeGeneration lib d1 cfg = analyzeColorsForSchemeGeneration lib d2 cfg"
proof -
  have u: "groupUsage (map snd d1) = groupUsage (map snd d2)"
    by (rule groupUsage_usedPart [OF assms])
  have h: "map hexValue (map snd d1) = map hexValue (map snd d2)"
    by (rule hexValue_usedPart [OF assms])
  have n: "length d1 = length d2"
    using assms by (metis length_map)
  have g: "analyzeGroup lib (map snd d1) cfg = analyzeGroup lib (map snd d2) cfg"
    by (rule ext) (simp add: analyzeGroup_def u)
  have a: "computeHueAnalyses lib (map snd d1) cfg = computeHueAnalyses lib (map snd d2) cfg"
    unfolding computeHueAnalyses_def g h ..
  show ?thesis
    unfolding analyzeColorsForSchemeGeneration_def Let_def mapping_by_hex a h
    using n by simp
qed

section \<open>Normalisation\<close>




text \<open>
  The normalisation \<open>((x % 360) + 360) % 360\<close> of a hue of \<open>[0, 360)\<close> rounds the sum
  \<open>x + 360\<close>: its result is on the grid, and normalising it again returns it.
\<close>

lemma onGrid_range: "onGrid r \<Longrightarrow> 0 \<le> r \<and> r < 360"
proof -
  assume "onGrid r"
  then obtain k where k: "0 \<le> k" "k < 360 * 2 ^ 44" "r = real_of_int k / 2 ^ 44"
    by auto
  have "real_of_int k < real_of_int (360 * 2 ^ 44)" using k(2) by (simp only: of_int_less_iff)
  then show ?thesis using k(1,3) by (simp add: field_simps)
qed

lemma onGrid_dbl: "onGrid r \<Longrightarrow> dbl r = r"
proof -
  assume "onGrid r"
  then obtain k where k: "0 \<le> k" "k < 360 * 2 ^ 44" "r = real_of_int k / 2 ^ 44"
    by auto
  have "\<bar>k\<bar> < 2 ^ 53" using k(1,2) by simp
  from dbl_multiple [OF this, of "- 44"] show ?thesis
    by (simp add: k(3) powr_neg_numeral)
qed

lemma norm_grid:
  assumes "0 \<le> h" "h < 360"
  shows "onGrid (js_rem (dbl (h + 360)) 360) \<and>
         js_rem (dbl (js_rem (dbl (h + 360)) 360 + 360)) 360 = js_rem (dbl (h + 360)) 360"
proof (cases "h + 360 < 512")
  case True
  define n where "n = roundTiesToEven ((h + 360) * 2 ^ 44)"
  have b: "2 powr of_int 8 \<le> \<bar>h + 360\<bar>" "\<bar>h + 360\<bar> < 2 powr (of_int 8 + 1)"
    using assms True by simp_all
  have s: "dbl (h + 360) = real_of_int n / 2 ^ 44"
    using dbl_eval [OF b] by (simp add: n_def powr_neg_numeral)
  have "real_of_int (360 * 2 ^ 44) \<le> (h + 360) * 2 ^ 44" using assms by simp
  then have lo: "360 * 2 ^ 44 \<le> n" unfolding n_def by (rule roundTiesToEven_ge)
  have "(h + 360) * 2 ^ 44 \<le> real_of_int (512 * 2 ^ 44)" using True by simp
  then have hi: "n \<le> 512 * 2 ^ 44" unfolding n_def by (rule roundTiesToEven_le)
  have lo': "360 \<le> real_of_int n / 2 ^ 44"
  proof -
    have "real_of_int (360 * 2 ^ 44) \<le> real_of_int n" using lo by (simp only: of_int_le_iff)
    then show ?thesis by (simp add: field_simps)
  qed
  have hi': "real_of_int n / 2 ^ 44 \<le> 512"
  proof -
    have "real_of_int n \<le> real_of_int (512 * 2 ^ 44)" using hi by (simp only: of_int_le_iff)
    then show ?thesis by (simp add: field_simps)
  qed
  have r: "js_rem (real_of_int n / 2 ^ 44) 360 = real_of_int (n - 360 * 2 ^ 44) / 2 ^ 44"
  proof -
    have "\<lfloor>real_of_int n / 2 ^ 44 / 360\<rfloor> = 1"
      using lo' hi' by (simp add: floor_eq_iff)
    then show ?thesis using lo'
      by (simp add: js_rem_def js_trunc_def field_simps)
  qed
  have g: "onGrid (js_rem (dbl (h + 360)) 360)"
    unfolding s r using lo hi by (intro exI [where x = "n - 360 * 2 ^ 44"]) simp
  have again: "js_rem (dbl (h + 360)) 360 + 360 = dbl (h + 360)"
  proof -
    have "real_of_int (n - 360 * 2 ^ 44) / 2 ^ 44 + 360 = real_of_int n / 2 ^ 44"
      by (simp add: field_simps)
    then show ?thesis by (simp only: s r)
  qed
  have idem: "dbl (dbl (h + 360)) = dbl (h + 360)"
  proof (cases "n = 2 ^ 53")
    case True
    then have "dbl (h + 360) = of_int 512" unfolding s by simp
    then show ?thesis using dbl_int [of 512] by simp
  next
    case False
    then have "\<bar>n\<bar> < 2 ^ 53" using lo hi by simp
    from dbl_multiple [OF this, of "- 44"] show ?thesis
      unfolding s by (simp add: powr_neg_numeral)
  qed
  show ?thesis using g unfolding again idem by simp
next
  case False
  define n where "n = roundTiesToEven ((h + 360) * 2 ^ 43)"
  have b: "2 powr of_int 9 \<le> \<bar>h + 360\<bar>" "\<bar>h + 360\<bar> < 2 powr (of_int 9 + 1)"
    using assms False by simp_all
  have s: "dbl (h + 360) = real_of_int n / 2 ^ 43"
    using dbl_eval [OF b] by (simp add: n_def powr_neg_numeral)
  have "real_of_int (512 * 2 ^ 43) \<le> (h + 360) * 2 ^ 43" using False by simp
  then have lo: "512 * 2 ^ 43 \<le> n" unfolding n_def by (rule roundTiesToEven_ge)
  have "(h + 360) * 2 ^ 43 \<le> real_of_int (720 * 2 ^ 43)" using assms by simp
  then have hi: "n \<le> 720 * 2 ^ 43" unfolding n_def by (rule roundTiesToEven_le)
  have idem: "dbl (dbl (h + 360)) = dbl (h + 360)"
  proof -
    have "\<bar>n\<bar> < 2 ^ 53" using lo hi by simp
    from dbl_multiple [OF this, of "- 43"] show ?thesis
      unfolding s by (simp add: powr_neg_numeral)
  qed
  show ?thesis
  proof (cases "n = 720 * 2 ^ 43")
    case True
    then have s720: "dbl (h + 360) = 720" unfolding s by simp
    have z: "js_rem 720 360 = 0" by (simp add: js_rem_def js_trunc_def)
    have "onGrid 0" by (intro exI [where x = 0]) simp
    moreover have "dbl 360 = 360" using dbl_int [of 360] by simp
    ultimately show ?thesis unfolding s720 z by (simp add: js_rem_360_360)
  next
    case ne: False
    have lo': "512 \<le> real_of_int n / 2 ^ 43"
    proof -
      have "real_of_int (512 * 2 ^ 43) \<le> real_of_int n" using lo by (simp only: of_int_le_iff)
      then show ?thesis by (simp add: field_simps)
    qed
    have "n < 720 * 2 ^ 43" using hi ne by simp
    then have "real_of_int n < real_of_int (720 * 2 ^ 43)" by (simp only: of_int_less_iff)
    then have hi': "real_of_int n / 2 ^ 43 < 720" by (simp add: field_simps)
    have r: "js_rem (real_of_int n / 2 ^ 43) 360 = real_of_int (2 * n - 360 * 2 ^ 44) / 2 ^ 44"
    proof -
      have "\<lfloor>real_of_int n / 2 ^ 43 / 360\<rfloor> = 1"
        using lo' hi' by (simp add: floor_eq_iff)
      then show ?thesis using lo'
        by (simp add: js_rem_def js_trunc_def field_simps)
    qed
    have g: "onGrid (js_rem (dbl (h + 360)) 360)"
      unfolding s r using lo \<open>n < 720 * 2 ^ 43\<close>
      by (intro exI [where x = "2 * n - 360 * 2 ^ 44"]) simp
    have again: "js_rem (dbl (h + 360)) 360 + 360 = dbl (h + 360)"
    proof -
      have "real_of_int (2 * n - 360 * 2 ^ 44) / 2 ^ 44 + 360 = real_of_int n / 2 ^ 43"
        by (simp add: field_simps)
      then show ?thesis by (simp only: s r)
    qed
    show ?thesis using g unfolding again idem by simp
  qed
qed

section \<open>Hue interpolation in doubles\<close>

lemma interpolateHue_diag:
  assumes "0 \<le> h" "h < 360"
  shows "interpolateHue h h f = js_rem (dbl (h + 360)) 360"
proof -
  define g where "g = js_rem (dbl (h + 360)) 360"
  have n: "js_rem (dbl (js_rem h 360 + 360)) 360 = g"
    using assms by (simp add: js_rem_nonneg_small g_def)
  have og: "onGrid g" and again: "js_rem (dbl (g + 360)) 360 = g"
    using norm_grid [OF assms] by (simp_all add: g_def)
  have r: "0 \<le> g" "g < 360"
    using onGrid_range [OF og] by simp_all
  have d: "dbl g = g"
    by (rule onGrid_dbl [OF og])
  have "interpolateHue h h f = g"
    unfolding interpolateHue_def n Let_def
    by (simp add: dbl_zero d js_rem_nonneg_small r again)
  then show ?thesis by (simp add: g_def)
qed

lemma interpolateHue_exact:
  assumes "0 \<le> h" "h < 360" "dbl (h + 360) = h + 360"
  shows "interpolateHue h h f = h"
  unfolding interpolateHue_diag [OF assms(1,2)] assms(3)
  using assms(1,2) by (rule js_rem_shift)

lemma dbl_nat_360: "n < 360 \<Longrightarrow> dbl (real n + 360) = real n + 360"
  using dbl_int [of "int n + 360"] by simp

lemma interpolateHue_nat:
  assumes "n < 360"
  shows "interpolateHue (real n) (real n) f = real n"
  using assms by (intro interpolateHue_exact dbl_nat_360) simp_all

lemma norm_nat:
  assumes "n < 360"
  shows "js_rem (dbl (js_rem (real n) 360 + 360)) 360 = real n"
  using assms by (simp add: js_rem_nonneg_small dbl_nat_360 js_rem_shift)

lemma norm_10: "js_rem (dbl (js_rem 10 360 + 360)) 360 = 10"
  using norm_nat [of 10] by simp

lemma norm_350: "js_rem (dbl (js_rem 350 360 + 360)) 360 = 350"
  using norm_nat [of 350] by simp

lemma norm_medium:
  "js_rem (dbl (js_rem (6157265115545599 / 17592186044416) 360 + 360)) 360 = 350"
proof -
  have a: "js_rem (6157265115545599 / 17592186044416) 360 = 6157265115545599 / 17592186044416"
    by (rule js_rem_nonneg_small) simp_all
  have b: "dbl (6157265115545599 / 17592186044416 + 360) = 710"
    by (rule dbl_step [where e = 9 and n = 6245226045767680])
       (simp_all add: roundTiesToEven_def Let_def powr_neg_numeral)
  have c: "js_rem 710 360 = 350"
    using js_rem_second [of 710] by simp
  show ?thesis unfolding a b c ..
qed

lemma interpolateHue_0_0: "interpolateHue 0 0 (1 / 2) = 0"
  using interpolateHue_nat [of 0] by simp

lemma interpolateHue_10_10: "interpolateHue 10 10 (1 / 2) = 10"
  using interpolateHue_nat [of 10] by simp

lemma interpolateHue_350_10: "interpolateHue 350 10 (1 / 2) = 0"
  unfolding interpolateHue_def Let_def norm_350 norm_10
  by (simp add: dbl_numeral dbl_neg_numeral js_rem_360_360)

lemma interpolateHue_10_350: "interpolateHue 10 350 (1 / 2) = 0"
  unfolding interpolateHue_def Let_def norm_350 norm_10
  by (simp add: dbl_numeral dbl_neg_numeral dbl_zero js_rem_nonneg_small js_rem_360_360)

lemma interpolateHue_quarters:
  "interpolateHue 350 10 (1 / 4) = 355" "interpolateHue 350 10 (3 / 4) = 5"
  unfolding interpolateHue_def Let_def norm_350 norm_10
  by (simp_all add: dbl_numeral dbl_neg_numeral js_rem_nonneg_small js_rem_second)

lemma norm_0: "js_rem (dbl (js_rem 0 360 + 360)) 360 = 0"
  using norm_nat [of 0] by simp

lemma norm_180: "js_rem (dbl (js_rem 180 360 + 360)) 360 = 180"
  using norm_nat [of 180] by simp

lemma norm_100: "js_rem (dbl (js_rem 100 360 + 360)) 360 = 100"
  using norm_nat [of 100] by simp

lemma norm_200: "js_rem (dbl (js_rem 200 360 + 360)) 360 = 200"
  using norm_nat [of 200] by simp

lemma interpolateHue_half_turn:
  "interpolateHue 0 180 (1 / 2) = 90" "interpolateHue 180 0 (1 / 2) = 90"
  unfolding interpolateHue_def Let_def norm_0 norm_180
  by (simp_all add: dbl_numeral dbl_neg_numeral js_rem_nonneg_small js_rem_second)

lemma interpolateHue_inner: "interpolateHue 100 200 (1 / 4) = 125"
  unfolding interpolateHue_def Let_def norm_100 norm_200
  by (simp add: dbl_numeral dbl_neg_numeral js_rem_nonneg_small js_rem_second)

lemma interpolateHue_medium_10:
  "interpolateHue (6157265115545599 / 17592186044416) 10 (1 / 2) = 0"
  unfolding interpolateHue_def Let_def norm_medium norm_10
  by (simp add: dbl_numeral dbl_neg_numeral js_rem_360_360)

lemma interpolateHue_tenth:
  "interpolateHue (3602879701896397 / 36028797018963968) (3602879701896397 / 36028797018963968) f =
     879609302221 / 8796093022208"
proof -
  have a: "dbl (3602879701896397 / 36028797018963968 + 360) = 3167473097297101 / 8796093022208"
    by (rule dbl_step [where e = 8 and n = 6334946194594202])
       (simp_all add: roundTiesToEven_def Let_def powr_neg_numeral)
  have b: "js_rem (3167473097297101 / 8796093022208) 360 = 879609302221 / 8796093022208"
    using js_rem_second [of "3167473097297101 / 8796093022208"] by simp
  have c: "interpolateHue (3602879701896397 / 36028797018963968)
             (3602879701896397 / 36028797018963968) f =
           js_rem (dbl (3602879701896397 / 36028797018963968 + 360)) 360"
    by (rule interpolateHue_diag) simp_all
  show ?thesis unfolding c a b ..
qed

section \<open>The sample library on the sample colours\<close>

lemma sampleRgb_red: "sampleRgb ''#ff0000'' = \<lparr>rgb_r = 255, rgb_g = 0, rgb_b = 0\<rparr>"
  by (simp add: sampleRgb_def hexByte_def hexDigit_def)

lemma sampleRgb_grey: "sampleRgb ''#808080'' = \<lparr>rgb_r = 128, rgb_g = 128, rgb_b = 128\<rparr>"
  by (simp add: sampleRgb_def hexByte_def hexDigit_def)

lemma sampleRgb_light: "sampleRgb ''#ffaa99'' = \<lparr>rgb_r = 255, rgb_g = 170, rgb_b = 153\<rparr>"
  by (simp add: sampleRgb_def hexByte_def hexDigit_def)

lemma sampleRgb_medium: "sampleRgb ''#ff002b'' = \<lparr>rgb_r = 255, rgb_g = 0, rgb_b = 43\<rparr>"
  by (simp add: sampleRgb_def hexByte_def hexDigit_def)

lemma sampleHsl_red: "sampleHsl ''#ff0000'' = \<lparr>hsl_h = 0, hsl_s = 100, hsl_l = 50\<rparr>"
  unfolding sampleHsl_def sampleRgb_red Let_def
  by (simp add: js_round_def)

lemma sampleHsl_grey: "sampleHsl ''#808080'' = \<lparr>hsl_h = 0, hsl_s = 0, hsl_l = 50\<rparr>"
  unfolding sampleHsl_def sampleRgb_grey Let_def
  by (simp add: js_round_def)

lemma sampleHsl_light: "sampleHsl ''#ffaa99'' = \<lparr>hsl_h = 10, hsl_s = 100, hsl_l = 80\<rparr>"
  unfolding sampleHsl_def sampleRgb_light Let_def
  by (simp add: js_round_def)

lemma sampleHsl_medium: "sampleHsl ''#ff002b'' = \<lparr>hsl_h = 350, hsl_s = 100, hsl_l = 50\<rparr>"
  unfolding sampleHsl_def sampleRgb_medium Let_def
  by (simp add: js_round_def)

lemma closest_red: "findClosestOpenColorHue sampleLib ''#ff0000'' = Red"
  by (simp add: findClosestOpenColorHue_def sampleLib_def sampleHsl_red OPEN_COLOR_HUES_def
      calculateHueDistance_def)

lemma closest_grey: "findClosestOpenColorHue sampleLib ''#808080'' = Gray"
  by (simp add: findClosestOpenColorHue_def sampleLib_def sampleHsl_grey)

lemma closest_light: "findClosestOpenColorHue sampleLib ''#ffaa99'' = Red"
  by (simp add: findClosestOpenColorHue_def sampleLib_def sampleHsl_light OPEN_COLOR_HUES_def
      calculateHueDistance_def)

lemma closest_medium: "findClosestOpenColorHue sampleLib ''#ff002b'' = Red"
  by (simp add: findClosestOpenColorHue_def sampleLib_def sampleHsl_medium OPEN_COLOR_HUES_def
      calculateHueDistance_def)

section \<open>Analyses and schemes\<close>

lemma analyzeGroup_fields:
  "ha_hue (analyzeGroup lib samples cfg (hue, cs)) = hue"
  "ha_colors (analyzeGroup lib samples cfg (hue, cs)) = cs"
  "usage (analyzeGroup lib samples cfg (hue, cs)) = groupUsage samples cs"
  "highlightHue (analyzeGroup lib samples cfg (hue, cs)) = highlightHue (calculateAverageHSL lib cs hue cfg)"
  "midtoneHue (analyzeGroup lib samples cfg (hue, cs)) = midtoneHue (calculateAverageHSL lib cs hue cfg)"
  "shadowHue (analyzeGroup lib samples cfg (hue, cs)) = shadowHue (calculateAverageHSL lib cs hue cfg)"
  by (simp_all add: analyzeGroup_def Let_def)

lemma makeScheme_fields:
  "analysis (makeScheme lib cfg g a) = a"
  "gs_hue (makeScheme lib cfg g a) = ha_hue a"
  "tripleHueMode (makeScheme lib cfg g a) = configEnabled cfg"
  "shades (makeScheme lib cfg g a) =
     generateOpenColorShades lib (avgHue a) (js_max (Num (avgChroma a)) g) (ha_hue a)
       (configEnabled cfg) (highlightHue a) (midtoneHue a) (shadowHue a)"
  by (simp_all add: makeScheme_def)

lemma analyze_fields:
  "hueAnalyses (analyzeColorsForSchemeGeneration lib d cfg) =
     computeHueAnalyses lib (map snd d) cfg"
  "generatedSchemes (analyzeColorsForSchemeGeneration lib d cfg) =
     map (makeScheme lib cfg (globalChroma (computeHueAnalyses lib (map snd d) cfg)))
       (filter (\<lambda>a. usage a > 0) (computeHueAnalyses lib (map snd d) cfg))"
  by (simp_all add: analyzeColorsForSchemeGeneration_def Let_def)

lemma set_computeHueAnalyses:
  "set (computeHueAnalyses lib samples cfg) =
   analyzeGroup lib samples cfg `
     {e \<in> set (groupColorsByOpenColorHue lib (map hexValue samples)). snd e \<noteq> []}"
  by (auto simp: computeHueAnalyses_def case_prod_beta)

lemma groupUsage_zero:
  assumes "\<And>c. c \<in> set samples \<Longrightarrow> hexValue c \<in> set hs \<Longrightarrow> occurrences c = []"
  shows "groupUsage samples hs = 0"
proof -
  have step: "(case find (\<lambda>c. hexValue c = x) samples of None \<Rightarrow> 0
               | Some d \<Rightarrow> length (occurrences d)) = 0" if "x \<in> set hs" for x
  proof (cases "find (\<lambda>c. hexValue c = x) samples")
    case None
    then show ?thesis by simp
  next
    case (Some d)
    then have "d \<in> set samples" "hexValue d = x"
      by (auto simp: find_Some_iff)
    with assms that Some show ?thesis by simp
  qed
  have "foldl (\<lambda>acc hexColor. acc + (case find (\<lambda>c. hexValue c = hexColor) samples of
                 None \<Rightarrow> 0 | Some d \<Rightarrow> length (occurrences d))) n xs = n"
    if "set xs \<subseteq> set hs" for n xs
    using that by (induction xs arbitrary: n) (simp_all add: step)
  then show ?thesis by (simp add: groupUsage_def)
qed

lemma spectral_indices:
  "getSpectralIndex Red = 0" "getSpectralIndex Gray = 12"
  by (simp_all add: getSpectralIndex_def SPECTRAL_ORDER_def)

lemma groups_unusedRedUsedGrey:
  "groupColorsByOpenColorHue sampleLib (map hexValue (map snd unusedRedUsedGrey)) =
     [(Gray, [''#808080'']), (Red, [''#ff0000'']), (Pink, []), (Grape, []), (Violet, []),
      (Indigo, []), (Blue, []), (Cyan, []), (Teal, []), (Green, []), (Lime, []),
      (Yellow, []), (Orange, [])]"
  by (simp add: group_char hueKeys_def unusedRedUsedGrey_def mkSample_def closest_red closest_grey)

lemma analyses_unusedRedUsedGrey:
  "computeHueAnalyses sampleLib (map snd unusedRedUsedGrey) cfg =
     [analyzeGroup sampleLib (map snd unusedRedUsedGrey) cfg (Red, [''#ff0000'']),
      analyzeGroup sampleLib (map snd unusedRedUsedGrey) cfg (Gray, [''#808080''])]"
  unfolding computeHueAnalyses_def groups_unusedRedUsedGrey
  by (simp add: analyzeGroup_fields spectral_indices)

lemma usage_unusedRedUsedGrey:
  "groupUsage (map snd unusedRedUsedGrey) [''#ff0000''] = 0"
  "groupUsage (map snd unusedRedUsedGrey) [''#808080''] = 1"
  by (simp_all add: groupUsage_def unusedRedUsedGrey_def mkSample_def)

section \<open>The complete palette\<close>

lemma palette_copy:
  "foldl (\<lambda>p (hue, xs). AList.update hue xs p) [] OPEN_COLOR_PALETTE = OPEN_COLOR_PALETTE"
  by (simp add: OPEN_COLOR_PALETTE_def)

lemma palette_keys: "map fst OPEN_COLOR_PALETTE = hueKeys"
  by (simp add: OPEN_COLOR_PALETTE_def hueKeys_def)

lemma palette_lengths: "\<exists>xs. map_of OPEN_COLOR_PALETTE hue = Some xs \<and> length xs = 10"
  by (cases hue) (simp_all add: OPEN_COLOR_PALETTE_def)

lemma shades_length:
  "length (generateOpenColorShades lib bh bc hue md hh mh sh) = 10"
  by (simp add: generateOpenColorShades_def lightnessSteps_def)

lemma replace_keys:
  "set (map fst p) = UNIV \<Longrightarrow> map fst (foldl replaceShades p ss) = map fst p"
proof (induction ss arbitrary: p)
  case Nil
  show ?case by simp
next
  case (Cons s ss)
  have k: "map fst (replaceShades p s) = map fst p"
    using Cons.prems by (simp add: replaceShades_def update_keys)
  then have "set (map fst (replaceShades p s)) = UNIV" using Cons.prems by simp
  from Cons.IH [OF this] k show ?case by simp
qed

lemma replace_other:
  "hue \<notin> gs_hue ` set ss \<Longrightarrow> map_of (foldl replaceShades p ss) hue = map_of p hue"
  by (induction ss arbitrary: p) (simp_all add: replaceShades_def update_conv')

lemma replace_in:
  "distinct (map gs_hue ss) \<Longrightarrow> s \<in> set ss \<Longrightarrow> 1 \<le> usage (analysis s) \<Longrightarrow>
   map_of (foldl replaceShades p ss) (gs_hue s) = Some (shades s)"
proof (induction ss arbitrary: p)
  case Nil
  then show ?case by simp
next
  case (Cons x xs)
  show ?case
  proof (cases "s = x")
    case True
    then have "gs_hue s \<notin> gs_hue ` set xs" using Cons.prems(1) by simp
    then have "map_of (foldl replaceShades (replaceShades p x) xs) (gs_hue s) =
               map_of (replaceShades p x) (gs_hue s)"
      by (rule replace_other)
    also have "\<dots> = Some (shades s)"
      using True Cons.prems(3) by (simp add: replaceShades_def update_conv')
    finally show ?thesis by simp
  next
    case False
    then have "s \<in> set xs" using Cons.prems(2) by simp
    moreover have "distinct (map gs_hue xs)" using Cons.prems(1) by simp
    ultimately show ?thesis using Cons.IH Cons.prems(3) by simp
  qed
qed

lemma replace_some:
  "(\<And>hue. \<exists>xs. map_of p hue = Some xs \<and> length xs = 10) \<Longrightarrow>
   (\<And>s. s \<in> set ss \<Longrightarrow> length (shades s) = 10) \<Longrightarrow>
   \<exists>xs. map_of (foldl replaceShades p ss) hue = Some xs \<and> length xs = 10"
proof (induction ss arbitrary: p)
  case Nil
  then show ?case by simp
next
  case (Cons s ss)
  have "\<exists>xs. map_of (replaceShades p s) h = Some xs \<and> length xs = 10" for h
    using Cons.prems(1) [of h] Cons.prems(2) [of s]
    by (simp add: replaceShades_def update_conv')
  then show ?case using Cons.IH [of "replaceShades p s"] Cons.prems(2) by simp
qed

lemma analysis_hues_distinct: "distinct (map ha_hue (computeHueAnalyses lib samples cfg))"
proof -
  let ?g = "groupColorsByOpenColorHue lib (map hexValue samples)"
  let ?ne = "filter (\<lambda>(hue, hueColors). hueColors \<noteq> []) ?g"
  have c: "ha_hue \<circ> analyzeGroup lib samples cfg = fst"
    by (rule ext) (simp add: analyzeGroup_def Let_def case_prod_beta)
  have f: "map ha_hue (map (analyzeGroup lib samples cfg) ?ne) = map fst ?ne"
    unfolding map_map c ..
  have "distinct (map fst ?g)"
    by (simp add: group_char comp_def hueKeys_distinct)
  then have d: "distinct (map fst ?ne)" by (rule distinct_map_filter)
  have "mset (map ha_hue (computeHueAnalyses lib samples cfg)) =
        mset (map ha_hue (map (analyzeGroup lib samples cfg) ?ne))"
    unfolding computeHueAnalyses_def by (simp only: mset_map mset_sort)
  then have "distinct (map ha_hue (computeHueAnalyses lib samples cfg)) =
             distinct (map ha_hue (map (analyzeGroup lib samples cfg) ?ne))"
    by (rule mset_eq_imp_distinct_iff)
  then show ?thesis unfolding f using d by simp
qed

lemma scheme_hues_distinct:
  "distinct (map gs_hue (generatedSchemes (analyzeColorsForSchemeGeneration lib d cfg)))"
proof -
  have "map gs_hue (generatedSchemes (analyzeColorsForSchemeGeneration lib d cfg)) =
        map ha_hue (filter (\<lambda>a. usage a > 0) (computeHueAnalyses lib (map snd d) cfg))"
    by (simp add: analyze_fields comp_def makeScheme_fields)
  then show ?thesis
    using distinct_map_filter [OF analysis_hues_distinct] by simp
qed

lemma palette_fold:
  "generateCompleteOpenColorPalette lib d cfg =
   foldl replaceShades OPEN_COLOR_PALETTE
     (generatedSchemes (analyzeColorsForSchemeGeneration lib d cfg))"
  by (simp add: generateCompleteOpenColorPalette_def Let_def palette_copy)

lemma schemes_unusedRedUsedGrey:
  "generatedSchemes (analyzeColorsForSchemeGeneration sampleLib unusedRedUsedGrey None) =
     [makeScheme sampleLib None
        (globalChroma (computeHueAnalyses sampleLib (map snd unusedRedUsedGrey) None))
        (analyzeGroup sampleLib (map snd unusedRedUsedGrey) None (Gray, [''#808080'']))]"
  unfolding analyze_fields
  by (simp add: analyses_unusedRedUsedGrey analyzeGroup_fields usage_unusedRedUsedGrey)

section \<open>The hue of a shade\<close>

lemma useTripleHue_iff:
  "useTripleHue md hh mh sh \<longleftrightarrow>
   md = Some True \<and>
   (\<exists>a b c. hh = Some a \<and> mh = Some b \<and> sh = Some c \<and> (\<bar>a - b\<bar> > 5 \<or> \<bar>b - c\<bar> > 5))"
  by (cases hh; cases mh; cases sh) (simp_all add: useTripleHue_def)

lemma hueToUse_single:
  "\<not> useTripleHue md hh mh sh \<Longrightarrow>
   hueToUse bh md hh mh sh lightness = js_rem (js_rem bh 360 + 360) 360"
  by (simp add: hueToUse_def)

lemma hueToUse_zones:
  "useTripleHue md (Some a) (Some b) (Some c) \<Longrightarrow>
   hueToUse bh md (Some a) (Some b) (Some c) lightness = threeZoneHue a b c lightness"
  by (simp add: hueToUse_def)

section \<open>The circular mean of the sample hues\<close>

text \<open>
  Each rounding of the run of \<open>calculateCircularMean\<close> on a sample list is one step:
  \<open>dbl_step\<close> at the exponent of the exact result and at the significand of the double.
\<close>

lemma sampleLib_math:
  "mathCos sampleLib = sampleCos" "mathSin sampleLib = sampleSin"
  "mathAtan2 sampleLib = sampleAtan2"
  by (simp_all add: sampleLib_def)

lemma sampleCos_tab:
  "sampleCos 0 = 1" "sampleCos rad10 = cos10" "sampleCos rad350 = cos350"
  "sampleCos rad90 = cos90" "sampleCos rad180 = - 1" "sampleCos rad270 = cos270"
  by (simp_all add: sampleCos_def rad10_def rad350_def rad90_def rad180_def rad270_def)

lemma sampleSin_tab:
  "sampleSin 0 = 0" "sampleSin rad10 = sin10" "sampleSin rad350 = sin350"
  "sampleSin rad90 = 1" "sampleSin rad180 = sin180" "sampleSin rad270 = - 1"
  by (simp_all add: sampleSin_def rad10_def rad350_def rad90_def rad180_def rad270_def)

lemma sampleAtan2_tab:
  "sampleAtan2 0 1 = 0" "sampleAtan2 sin10 cos10 = atan10" "sampleAtan2 sin350 cos350 = atan350"
  "sampleAtan2 seamY cos350 = atanSeam" "sampleAtan2 crossY crossX = atanCross"
  by (simp_all add: sampleAtan2_def sin10_def cos10_def sin350_def cos350_def seamY_def
      crossY_def crossX_def)

lemma calculateCircularMean_steps:
  assumes "hues \<noteq> []"
    and "sumDoubles (map (\<lambda>h. mathCos lib (toRadians h)) hues) = sx"
    and "sumDoubles (map (\<lambda>h. mathSin lib (toRadians h)) hues) = sy"
    and "dbl (sx / real (length hues)) = ax"
    and "dbl (sy / real (length hues)) = ay"
    and "dbl (dbl (mathAtan2 lib ay ax * 180) / MathPI) = a"
  shows "calculateCircularMean lib hues = (if a < 0 then dbl (a + 360) else a)"
  using assms unfolding calculateCircularMean_def Let_def
  by (simp add: comp_def)

lemma toRadians_10: "toRadians 10 = rad10"
proof -
  have a: "dbl (10 * MathPI) = 4421398595017775 / 140737488355328"
    unfolding MathPI_def
    by (rule dbl_step [where e = 4 and n = 8842797190035550])
       (simp_all add: roundTiesToEven_def Let_def powr_neg_numeral)
  have b: "dbl (4421398595017775 / 140737488355328 / 180) = rad10"
    unfolding rad10_def
    by (rule dbl_step [where e = "- 3" and n = 6288211335136391])
       (simp_all add: roundTiesToEven_def Let_def powr_neg_numeral)
  show ?thesis unfolding toRadians_def a b ..
qed

lemma toRadians_350: "toRadians 350 = rad350"
proof -
  have a: "dbl (350 * MathPI) = 4835904713300691 / 4398046511104"
    unfolding MathPI_def
    by (rule dbl_step [where e = 10 and n = 4835904713300691])
       (simp_all add: roundTiesToEven_def Let_def powr_neg_numeral)
  have b: "dbl (4835904713300691 / 4398046511104 / 180) = rad350"
    unfolding rad350_def
    by (rule dbl_step [where e = 2 and n = 6877731147805427])
       (simp_all add: roundTiesToEven_def Let_def powr_neg_numeral)
  show ?thesis unfolding toRadians_def a b ..
qed

lemma toRadians_90: "toRadians 90 = rad90"
proof -
  have a: "dbl (90 * MathPI) = 4974073419394997 / 17592186044416"
    unfolding MathPI_def
    by (rule dbl_step [where e = 8 and n = 4974073419394997])
       (simp_all add: roundTiesToEven_def Let_def powr_neg_numeral)
  have b: "dbl (4974073419394997 / 17592186044416 / 180) = rad90"
    unfolding rad90_def
    by (rule dbl_step [where e = 0 and n = 7074237752028440])
       (simp_all add: roundTiesToEven_def Let_def powr_neg_numeral)
  show ?thesis unfolding toRadians_def a b ..
qed

lemma toRadians_180: "toRadians 180 = rad180"
proof -
  have a: "dbl (180 * MathPI) = 4974073419394997 / 8796093022208"
    unfolding MathPI_def
    by (rule dbl_step [where e = 9 and n = 4974073419394997])
       (simp_all add: roundTiesToEven_def Let_def powr_neg_numeral)
  have b: "dbl (4974073419394997 / 8796093022208 / 180) = rad180"
    unfolding rad180_def
    by (rule dbl_step [where e = 1 and n = 7074237752028440])
       (simp_all add: roundTiesToEven_def Let_def powr_neg_numeral)
  show ?thesis unfolding toRadians_def a b ..
qed

lemma toRadians_270: "toRadians 270 = rad270"
proof -
  have a: "dbl (270 * MathPI) = 7461110129092495 / 8796093022208"
    unfolding MathPI_def
    by (rule dbl_step [where e = 9 and n = 7461110129092495])
       (simp_all add: roundTiesToEven_def Let_def powr_neg_numeral)
  have b: "dbl (7461110129092495 / 8796093022208 / 180) = rad270"
    unfolding rad270_def
    by (rule dbl_step [where e = 2 and n = 5305678314021330])
       (simp_all add: roundTiesToEven_def Let_def powr_neg_numeral)
  show ?thesis unfolding toRadians_def a b ..
qed

lemma toRadians_0: "toRadians 0 = 0"
  by (simp add: toRadians_def dbl_zero)

lemmas toRadians_tab =
  toRadians_0 toRadians_10 toRadians_350 toRadians_90 toRadians_180 toRadians_270

lemma circularMean_zero: "calculateCircularMean sampleLib [0] = 0"
proof -
  have sx1: "dbl (0 + 1) = 1"
    by (rule dbl_step [where e = 0 and n = 4503599627370496])
       (simp_all add: roundTiesToEven_def Let_def powr_neg_numeral)
  have sx: "sumDoubles (map (\<lambda>h. mathCos sampleLib (toRadians h)) [0]) = 1"
    unfolding sumDoubles_def list.map foldl.simps toRadians_tab sampleLib_math
      sampleCos_tab sx1 ..
  have sy1: "dbl (0 + 0) = 0"
    by (simp add: dbl_zero)
  have sy: "sumDoubles (map (\<lambda>h. mathSin sampleLib (toRadians h)) [0]) = 0"
    unfolding sumDoubles_def list.map foldl.simps toRadians_tab sampleLib_math
      sampleSin_tab sy1 ..
  have ax: "dbl (1 / real (length [0::real])) = 1"
    by (rule dbl_step [where e = 0 and n = 4503599627370496])
       (simp_all add: roundTiesToEven_def Let_def powr_neg_numeral)
  have ay: "dbl (0 / real (length [0::real])) = 0"
    by (simp add: dbl_zero)
  have at: "mathAtan2 sampleLib 0 1 = 0"
    by (simp add: sampleLib_math sampleAtan2_tab)
  have t: "dbl (0 * 180) = 0"
    by (simp add: dbl_zero)
  have a: "dbl (0 / MathPI) = 0"
    unfolding MathPI_def
    by (simp add: dbl_zero)
  have r: "dbl (dbl (mathAtan2 sampleLib 0 1 * 180) / MathPI) = 0"
    unfolding at t a ..
  have ne: "[0::real] \<noteq> []"
    by simp
  have s: "\<not> 0 < (0::real)"
    by simp
  show ?thesis
    unfolding calculateCircularMean_steps [OF ne sx sy ax ay r] if_not_P [OF s] ..
qed

lemma circularMean_ten: "calculateCircularMean sampleLib [10] = 10"
proof -
  have sx1: "dbl (0 + cos10) = cos10"
    unfolding cos10_def
    by (rule dbl_step [where e = "- 1" and n = 8870359658994711])
       (simp_all add: roundTiesToEven_def Let_def powr_neg_numeral)
  have sx: "sumDoubles (map (\<lambda>h. mathCos sampleLib (toRadians h)) [10]) = cos10"
    unfolding sumDoubles_def list.map foldl.simps toRadians_tab sampleLib_math
      sampleCos_tab sx1 ..
  have sy1: "dbl (0 + sin10) = sin10"
    unfolding sin10_def
    by (rule dbl_step [where e = "- 3" and n = 6256334945874825])
       (simp_all add: roundTiesToEven_def Let_def powr_neg_numeral)
  have sy: "sumDoubles (map (\<lambda>h. mathSin sampleLib (toRadians h)) [10]) = sin10"
    unfolding sumDoubles_def list.map foldl.simps toRadians_tab sampleLib_math
      sampleSin_tab sy1 ..
  have ax: "dbl (cos10 / real (length [10::real])) = cos10"
    unfolding cos10_def
    by (rule dbl_step [where e = "- 1" and n = 8870359658994711])
       (simp_all add: roundTiesToEven_def Let_def powr_neg_numeral)
  have ay: "dbl (sin10 / real (length [10::real])) = sin10"
    unfolding sin10_def
    by (rule dbl_step [where e = "- 3" and n = 6256334945874825])
       (simp_all add: roundTiesToEven_def Let_def powr_neg_numeral)
  have at: "mathAtan2 sampleLib sin10 cos10 = atan10"
    by (simp add: sampleLib_math sampleAtan2_tab)
  have t: "dbl (atan10 * 180) = 4421398595017775 / 140737488355328"
    unfolding atan10_def
    by (rule dbl_step [where e = 4 and n = 8842797190035550])
       (simp_all add: roundTiesToEven_def Let_def powr_neg_numeral)
  have a: "dbl (4421398595017775 / 140737488355328 / MathPI) = 10"
    unfolding MathPI_def
    by (rule dbl_step [where e = 3 and n = 5629499534213120])
       (simp_all add: roundTiesToEven_def Let_def powr_neg_numeral)
  have r: "dbl (dbl (mathAtan2 sampleLib sin10 cos10 * 180) / MathPI) = 10"
    unfolding at t a ..
  have ne: "[10::real] \<noteq> []"
    by simp
  have s: "\<not> 10 < (0::real)"
    by simp
  show ?thesis
    unfolding calculateCircularMean_steps [OF ne sx sy ax ay r] if_not_P [OF s] ..
qed

lemma circularMean_medium: "calculateCircularMean sampleLib [350] =
      6157265115545599 / 17592186044416"
proof -
  have sx1: "dbl (0 + cos350) = cos350"
    unfolding cos350_def
    by (rule dbl_step [where e = "- 1" and n = 8870359658994710])
       (simp_all add: roundTiesToEven_def Let_def powr_neg_numeral)
  have sx: "sumDoubles (map (\<lambda>h. mathCos sampleLib (toRadians h)) [350]) = cos350"
    unfolding sumDoubles_def list.map foldl.simps toRadians_tab sampleLib_math
      sampleCos_tab sx1 ..
  have sy1: "dbl (0 + sin350) = sin350"
    unfolding sin350_def
    by (rule dbl_step [where e = "- 3" and n = "- 6256334945874859"])
       (simp_all add: roundTiesToEven_def Let_def powr_neg_numeral)
  have sy: "sumDoubles (map (\<lambda>h. mathSin sampleLib (toRadians h)) [350]) = sin350"
    unfolding sumDoubles_def list.map foldl.simps toRadians_tab sampleLib_math
      sampleSin_tab sy1 ..
  have ax: "dbl (cos350 / real (length [350::real])) = cos350"
    unfolding cos350_def
    by (rule dbl_step [where e = "- 1" and n = 8870359658994710])
       (simp_all add: roundTiesToEven_def Let_def powr_neg_numeral)
  have ay: "dbl (sin350 / real (length [350::real])) = sin350"
    unfolding sin350_def
    by (rule dbl_step [where e = "- 3" and n = "- 6256334945874859"])
       (simp_all add: roundTiesToEven_def Let_def powr_neg_numeral)
  have at: "mathAtan2 sampleLib sin350 cos350 = atan350"
    by (simp add: sampleLib_math sampleAtan2_tab)
  have t: "dbl (atan350 * 180) = - (4421398595017799 / 140737488355328)"
    unfolding atan350_def
    by (rule dbl_step [where e = 4 and n = "- 8842797190035598"])
       (simp_all add: roundTiesToEven_def Let_def powr_neg_numeral)
  have a: "dbl ((- (4421398595017799 / 140737488355328)) / MathPI) =
        - (5629499534213151 / 562949953421312)"
    unfolding MathPI_def
    by (rule dbl_step [where e = 3 and n = "- 5629499534213151"])
       (simp_all add: roundTiesToEven_def Let_def powr_neg_numeral)
  have r: "dbl (dbl (mathAtan2 sampleLib sin350 cos350 * 180) / MathPI) =
        - (5629499534213151 / 562949953421312)"
    unfolding at t a ..
  have ne: "[350::real] \<noteq> []"
    by simp
  have s: "- (5629499534213151 / 562949953421312) < (0::real)"
    by simp
  have f: "dbl (- (5629499534213151 / 562949953421312) + 360) = 6157265115545599 / 17592186044416"
    by (rule dbl_step [where e = 8 and n = 6157265115545599])
       (simp_all add: roundTiesToEven_def Let_def powr_neg_numeral)
  show ?thesis
    unfolding calculateCircularMean_steps [OF ne sx sy ax ay r] if_P [OF s] f ..
qed

lemma circularMean_seam: "calculateCircularMean sampleLib [350, 10] = 360"
proof -
  have sx1: "dbl (0 + cos350) = cos350"
    unfolding cos350_def
    by (rule dbl_step [where e = "- 1" and n = 8870359658994710])
       (simp_all add: roundTiesToEven_def Let_def powr_neg_numeral)
  have sx2: "dbl (cos350 + cos10) = 4435179829497355 / 2251799813685248"
    unfolding cos350_def cos10_def
    by (rule dbl_step [where e = 0 and n = 8870359658994710])
       (simp_all add: roundTiesToEven_def Let_def powr_neg_numeral)
  have sx: "sumDoubles (map (\<lambda>h. mathCos sampleLib (toRadians h)) [350, 10]) =
        4435179829497355 / 2251799813685248"
    unfolding sumDoubles_def list.map foldl.simps toRadians_tab sampleLib_math
      sampleCos_tab sx1 sx2 ..
  have sy1: "dbl (0 + sin350) = sin350"
    unfolding sin350_def
    by (rule dbl_step [where e = "- 3" and n = "- 6256334945874859"])
       (simp_all add: roundTiesToEven_def Let_def powr_neg_numeral)
  have sy2: "dbl (sin350 + sin10) = - (17 / 18014398509481984)"
    unfolding sin350_def sin10_def
    by (rule dbl_step [where e = "- 50" and n = "- 4785074604081152"])
       (simp_all add: roundTiesToEven_def Let_def powr_neg_numeral)
  have sy: "sumDoubles (map (\<lambda>h. mathSin sampleLib (toRadians h)) [350, 10]) =
        - (17 / 18014398509481984)"
    unfolding sumDoubles_def list.map foldl.simps toRadians_tab sampleLib_math
      sampleSin_tab sy1 sy2 ..
  have ax: "dbl (4435179829497355 / 2251799813685248 / real (length [350::real, 10])) = cos350"
    unfolding cos350_def
    by (rule dbl_step [where e = "- 1" and n = 8870359658994710])
       (simp_all add: roundTiesToEven_def Let_def powr_neg_numeral)
  have ay: "dbl (- (17 / 18014398509481984) / real (length [350::real, 10])) = seamY"
    unfolding seamY_def
    by (rule dbl_step [where e = "- 51" and n = "- 4785074604081152"])
       (simp_all add: roundTiesToEven_def Let_def powr_neg_numeral)
  have at: "mathAtan2 sampleLib seamY cos350 = atanSeam"
    by (simp add: sampleLib_math sampleAtan2_tab)
  have t: "dbl (atanSeam * 180) = - (3416408502779987 / 39614081257132168796771975168)"
    unfolding atanSeam_def
    by (rule dbl_step [where e = "- 44" and n = "- 6832817005559974"])
       (simp_all add: roundTiesToEven_def Let_def powr_neg_numeral)
  have a: "dbl ((- (3416408502779987 / 39614081257132168796771975168)) / MathPI) =
        - (8699812813417859 / 316912650057057350374175801344)"
    unfolding MathPI_def
    by (rule dbl_step [where e = "- 46" and n = "- 8699812813417859"])
       (simp_all add: roundTiesToEven_def Let_def powr_neg_numeral)
  have r: "dbl (dbl (mathAtan2 sampleLib seamY cos350 * 180) / MathPI) =
        - (8699812813417859 / 316912650057057350374175801344)"
    unfolding at t a ..
  have ne: "[350::real, 10] \<noteq> []"
    by simp
  have s: "- (8699812813417859 / 316912650057057350374175801344) < (0::real)"
    by simp
  have f: "dbl (- (8699812813417859 / 316912650057057350374175801344) + 360) = 360"
    by (rule dbl_step [where e = 8 and n = 6333186975989760])
       (simp_all add: roundTiesToEven_def Let_def powr_neg_numeral)
  show ?thesis
    unfolding calculateCircularMean_steps [OF ne sx sy ax ay r] if_P [OF s] f ..
qed

lemma circularMean_cross: "calculateCircularMean sampleLib [0, 90, 180, 270] =
      569990700175747 / 4398046511104"
proof -
  have sx1: "dbl (0 + 1) = 1"
    by (rule dbl_step [where e = 0 and n = 4503599627370496])
       (simp_all add: roundTiesToEven_def Let_def powr_neg_numeral)
  have sx2: "dbl (1 + cos90) = 1"
    unfolding cos90_def
    by (rule dbl_step [where e = 0 and n = 4503599627370496])
       (simp_all add: roundTiesToEven_def Let_def powr_neg_numeral)
  have sx3: "dbl (1 + (- 1)) = 0"
    by (simp add: dbl_zero)
  have sx4: "dbl (0 + cos270) = cos270"
    unfolding cos270_def
    by (rule dbl_step [where e = "- 53" and n = "- 7451636400032266"])
       (simp_all add: roundTiesToEven_def Let_def powr_neg_numeral)
  have sx: "sumDoubles (map (\<lambda>h. mathCos sampleLib (toRadians h)) [0, 90, 180, 270]) =
        cos270"
    unfolding sumDoubles_def list.map foldl.simps toRadians_tab sampleLib_math
      sampleCos_tab sx1 sx2 sx3 sx4 ..
  have sy1: "dbl (0 + 0) = 0"
    by (simp add: dbl_zero)
  have sy2: "dbl (0 + 1) = 1"
    by (rule dbl_step [where e = 0 and n = 4503599627370496])
       (simp_all add: roundTiesToEven_def Let_def powr_neg_numeral)
  have sy3: "dbl (1 + sin180) = 4503599627370497 / 4503599627370496"
    unfolding sin180_def
    by (rule dbl_step [where e = 0 and n = 4503599627370497])
       (simp_all add: roundTiesToEven_def Let_def powr_neg_numeral)
  have sy4: "dbl (4503599627370497 / 4503599627370496 + (- 1)) = 1 / 4503599627370496"
    by (rule dbl_step [where e = "- 52" and n = 4503599627370496])
       (simp_all add: roundTiesToEven_def Let_def powr_neg_numeral)
  have sy: "sumDoubles (map (\<lambda>h. mathSin sampleLib (toRadians h)) [0, 90, 180, 270]) =
        1 / 4503599627370496"
    unfolding sumDoubles_def list.map foldl.simps toRadians_tab sampleLib_math
      sampleSin_tab sy1 sy2 sy3 sy4 ..
  have ax: "dbl (cos270 / real (length [0::real, 90, 180, 270])) = crossX"
    unfolding cos270_def crossX_def
    by (rule dbl_step [where e = "- 55" and n = "- 7451636400032266"])
       (simp_all add: roundTiesToEven_def Let_def powr_neg_numeral)
  have ay: "dbl (1 / 4503599627370496 / real (length [0::real, 90, 180, 270])) = crossY"
    unfolding crossY_def
    by (rule dbl_step [where e = "- 54" and n = 4503599627370496])
       (simp_all add: roundTiesToEven_def Let_def powr_neg_numeral)
  have at: "mathAtan2 sampleLib crossY crossX = atanCross"
    by (simp add: sampleLib_math sampleAtan2_tab)
  have t: "dbl (atanCross * 180) = 7162714385146517 / 17592186044416"
    unfolding atanCross_def
    by (rule dbl_step [where e = 8 and n = 7162714385146517])
       (simp_all add: roundTiesToEven_def Let_def powr_neg_numeral)
  have a: "dbl (7162714385146517 / 17592186044416 / MathPI) = 569990700175747 / 4398046511104"
    unfolding MathPI_def
    by (rule dbl_step [where e = 7 and n = 4559925601405976])
       (simp_all add: roundTiesToEven_def Let_def powr_neg_numeral)
  have r: "dbl (dbl (mathAtan2 sampleLib crossY crossX * 180) / MathPI) =
        569990700175747 / 4398046511104"
    unfolding at t a ..
  have ne: "[0::real, 90, 180, 270] \<noteq> []"
    by simp
  have s: "\<not> 569990700175747 / 4398046511104 < (0::real)"
    by simp
  show ?thesis
    unfolding calculateCircularMean_steps [OF ne sx sy ax ay r] if_not_P [OF s] ..
qed

section \<open>Zone hues of the samples\<close>

lemma toHsl_sample:
  "toHsl sampleLib ''#ff0000'' = \<lparr>hsl_h = 0, hsl_s = 100, hsl_l = 50\<rparr>"
  "toHsl sampleLib ''#ffaa99'' = \<lparr>hsl_h = 10, hsl_s = 100, hsl_l = 80\<rparr>"
  "toHsl sampleLib ''#ff002b'' = \<lparr>hsl_h = 350, hsl_s = 100, hsl_l = 50\<rparr>"
  by (simp_all add: sampleLib_def sampleHsl_red sampleHsl_light sampleHsl_medium)

lemma separate_usedRed:
  "separateIntoThreeGroups sampleLib [''#ff0000''] 66 33 = ([], [''#ff0000''], [])"
  by (simp add: separateIntoThreeGroups_def toHsl_sample)

lemma separate_twoReds:
  "separateIntoThreeGroups sampleLib [''#ffaa99'', ''#ff002b''] 66 33 =
     ([''#ffaa99''], [''#ff002b''], [])"
  by (simp add: separateIntoThreeGroups_def toHsl_sample)

lemma zoneHue_sample:
  "zoneHue sampleLib [] = None"
  "zoneHue sampleLib [''#ff0000''] = Some 0"
  "zoneHue sampleLib [''#ffaa99''] = Some 10"
  "zoneHue sampleLib [''#ff002b''] = Some (6157265115545599 / 17592186044416)"
  by (simp_all add: zoneHue_def toHsl_sample circularMean_zero circularMean_ten
      circularMean_medium)

lemma zones_blend_usedRed:
  "blendMidtone (fillMissingHues x (None, Some 0, None)) = (Some 0, Some 0, Some 0)"
  by (simp add: fillMissingHues_def orElse_def blendMidtone_def interpolateHue_0_0)

lemma zones_blend_twoReds:
  "blendMidtone (fillMissingHues x (Some 10, Some (6157265115545599 / 17592186044416), None)) =
     (Some 10, Some 0, Some 10)"
  by (simp add: fillMissingHues_def orElse_def blendMidtone_def interpolateHue_10_10
      interpolateHue_medium_10)

lemma average_usedRed:
  "highlightHue (calculateAverageHSL sampleLib [''#ff0000''] Red tripleHueOn) = Some 0"
  "midtoneHue (calculateAverageHSL sampleLib [''#ff0000''] Red tripleHueOn) = Some 0"
  "shadowHue (calculateAverageHSL sampleLib [''#ff0000''] Red tripleHueOn) = Some 0"
  unfolding calculateAverageHSL_def tripleHueOn_def Let_def
  by (simp_all add: toHsl_sample separate_usedRed zoneHue_sample zones_blend_usedRed)

lemma average_twoReds:
  "highlightHue (calculateAverageHSL sampleLib [''#ffaa99'', ''#ff002b''] Red tripleHueOn) = Some 10"
  "midtoneHue (calculateAverageHSL sampleLib [''#ffaa99'', ''#ff002b''] Red tripleHueOn) = Some 0"
  "shadowHue (calculateAverageHSL sampleLib [''#ffaa99'', ''#ff002b''] Red tripleHueOn) = Some 10"
  unfolding calculateAverageHSL_def tripleHueOn_def Let_def
  by (simp_all add: toHsl_sample separate_twoReds zoneHue_sample zones_blend_twoReds)

lemma groups_usedRed:
  "groupColorsByOpenColorHue sampleLib (map hexValue (map snd usedRed)) =
     [(Gray, []), (Red, [''#ff0000'']), (Pink, []), (Grape, []), (Violet, []),
      (Indigo, []), (Blue, []), (Cyan, []), (Teal, []), (Green, []), (Lime, []),
      (Yellow, []), (Orange, [])]"
  by (simp add: group_char hueKeys_def usedRed_def mkSample_def closest_red)

lemma groups_twoReds:
  "groupColorsByOpenColorHue sampleLib (map hexValue (map snd twoReds)) =
     [(Gray, []), (Red, [''#ffaa99'', ''#ff002b'']), (Pink, []), (Grape, []), (Violet, []),
      (Indigo, []), (Blue, []), (Cyan, []), (Teal, []), (Green, []), (Lime, []),
      (Yellow, []), (Orange, [])]"
  by (simp add: group_char hueKeys_def twoReds_def mkSample_def closest_light closest_medium)

lemma analyses_usedRed:
  "computeHueAnalyses sampleLib (map snd usedRed) cfg =
     [analyzeGroup sampleLib (map snd usedRed) cfg (Red, [''#ff0000''])]"
  unfolding computeHueAnalyses_def groups_usedRed by simp

lemma analyses_twoReds:
  "computeHueAnalyses sampleLib (map snd twoReds) cfg =
     [analyzeGroup sampleLib (map snd twoReds) cfg (Red, [''#ffaa99'', ''#ff002b''])]"
  unfolding computeHueAnalyses_def groups_twoReds by simp

lemma usage_usedRed: "groupUsage (map snd usedRed) [''#ff0000''] = 1"
  by (simp add: groupUsage_def usedRed_def mkSample_def)

lemma usage_twoReds: "groupUsage (map snd twoReds) [''#ffaa99'', ''#ff002b''] = 2"
  by (simp add: groupUsage_def twoReds_def mkSample_def)

lemma schemes_usedRed:
  "generatedSchemes (analyzeColorsForSchemeGeneration sampleLib usedRed cfg) =
     [makeScheme sampleLib cfg
        (globalChroma (computeHueAnalyses sampleLib (map snd usedRed) cfg))
        (analyzeGroup sampleLib (map snd usedRed) cfg (Red, [''#ff0000'']))]"
  unfolding analyze_fields
  by (simp add: analyses_usedRed analyzeGroup_fields usage_usedRed)

lemma schemes_twoReds:
  "generatedSchemes (analyzeColorsForSchemeGeneration sampleLib twoReds cfg) =
     [makeScheme sampleLib cfg
        (globalChroma (computeHueAnalyses sampleLib (map snd twoReds) cfg))
        (analyzeGroup sampleLib (map snd twoReds) cfg (Red, [''#ffaa99'', ''#ff002b'']))]"
  unfolding analyze_fields
  by (simp add: analyses_twoReds analyzeGroup_fields usage_twoReds)

lemma enabled_tripleHueOn: "configEnabled tripleHueOn = Some True"
  by (simp add: configEnabled_def tripleHueOn_def)

lemma used_usedRed:
  "\<not> interpolationUsed tripleHueOn
       (analyzeGroup sampleLib (map snd usedRed) tripleHueOn (Red, [''#ff0000'']))"
  by (simp add: interpolationUsed_def analyzeGroup_fields average_usedRed useTripleHue_def)

lemma used_twoReds:
  "interpolationUsed tripleHueOn
     (analyzeGroup sampleLib (map snd twoReds) tripleHueOn (Red, [''#ffaa99'', ''#ff002b'']))"
  by (simp add: interpolationUsed_def analyzeGroup_fields average_twoReds useTripleHue_def
      enabled_tripleHueOn)

section \<open>Claims\<close>

text \<open>
  C6, as stated, fails in doubles: the hue 0.1 (the double nearest to it) is in
  \<open>[0, 360)\<close>, and interpolating it with itself returns, for every factor, the double
  0.10000000000002274: the normalisation adds 360, which rounds to a multiple of
  \<open>2\<^sup>-\<^sup>4\<^sup>4\<close>, and the remainder keeps the rounding error.
\<close>

theorem interpolateHue_same_counterexample:
  "(0::real) \<le> 3602879701896397 / 36028797018963968 \<and>
   (3602879701896397 / 36028797018963968 :: real) < 360 \<and>
   interpolateHue (3602879701896397 / 36028797018963968)
     (3602879701896397 / 36028797018963968) (1 / 2) = 879609302221 / 8796093022208 \<and>
   interpolateHue (3602879701896397 / 36028797018963968)
     (3602879701896397 / 36028797018963968) (1 / 2) \<noteq> 3602879701896397 / 36028797018963968"
  unfolding interpolateHue_tenth by simp

text \<open>
  C6, amended. The hue interpolation primitive gives \<open>interpolate(350, 10, 0.5) = 0\<close> and
  \<open>interpolate(10, 350, 0.5) = 0\<close> (the shortest arc runs through the 0/360 seam, in both
  directions), and a quarter and three quarters of the way from 350 to 10 are 355 and 5;
  a difference of exactly 180 degrees is not wrapped (half way between 0 and 180 is 90,
  from either end), and a quarter of the way from 100 to 200 is 125.
  For every hue \<open>h\<close> in \<open>[0, 360)\<close> and every factor \<open>f\<close>, \<open>interpolate(h, h, f)\<close> is
  the remainder modulo 360 of the double nearest to \<open>h + 360\<close>; it is \<open>h\<close> whenever
  \<open>h + 360\<close> is a double, as for every whole number of degrees.
\<close>

theorem interpolateHue_seam_and_diagonal:
  "interpolateHue 350 10 (1 / 2) = 0 \<and>
   interpolateHue 10 350 (1 / 2) = 0 \<and>
   interpolateHue 350 10 (1 / 4) = 355 \<and>
   interpolateHue 350 10 (3 / 4) = 5 \<and>
   interpolateHue 0 180 (1 / 2) = 90 \<and>
   interpolateHue 180 0 (1 / 2) = 90 \<and>
   interpolateHue 100 200 (1 / 4) = 125 \<and>
   (\<forall>h f. 0 \<le> h \<and> h < 360 \<longrightarrow> interpolateHue h h f = js_rem (dbl (h + 360)) 360) \<and>
   (\<forall>h f. 0 \<le> h \<and> h < 360 \<and> dbl (h + 360) = h + 360 \<longrightarrow> interpolateHue h h f = h) \<and>
   (\<forall>n f. n < 360 \<longrightarrow> interpolateHue (real n) (real n) f = real n)"
proof -
  have A: "\<forall>h f. 0 \<le> h \<and> h < 360 \<longrightarrow> interpolateHue h h f = js_rem (dbl (h + 360)) 360"
    by (simp add: interpolateHue_diag)
  have B: "\<forall>h f. 0 \<le> h \<and> h < 360 \<and> dbl (h + 360) = h + 360 \<longrightarrow> interpolateHue h h f = h"
    by (simp add: interpolateHue_exact)
  have C: "\<forall>n f. n < 360 \<longrightarrow> interpolateHue (real n) (real n) f = real n"
    by (simp add: interpolateHue_nat)
  show ?thesis
    by (rule conjI [OF interpolateHue_350_10 conjI [OF interpolateHue_10_350
          conjI [OF interpolateHue_quarters(1) conjI [OF interpolateHue_quarters(2)
          conjI [OF interpolateHue_half_turn(1) conjI [OF interpolateHue_half_turn(2)
          conjI [OF interpolateHue_inner conjI [OF A conjI [OF B C]]]]]]]]])
qed

theorem interpolateHue_seam_and_diagonal_witness:
  "(0::real) \<le> 120 \<and> (120::real) < 360 \<and> dbl (120 + 360) = 120 + 360 \<and>
   interpolateHue 120 120 (1 / 4) = 120 \<and>
   interpolateHue 120 120 (1 / 4) = js_rem (dbl (120 + 360)) 360"
proof -
  have d: "dbl (120 + 360) = 120 + 360"
    by (simp add: dbl_numeral)
  have "interpolateHue 120 120 (1 / 4) = 120"
    using interpolateHue_seam_and_diagonal d js_rem_second [of 480] by simp
  moreover have "interpolateHue 120 120 (1 / 4) = js_rem (dbl (120 + 360)) 360"
    using interpolateHue_seam_and_diagonal d js_rem_second [of 480] by simp
  ultimately show ?thesis using d by simp
qed

text \<open>
  C5. With the correctly rounded cosines, sines and arctangents of the sample, the
  circular mean of the empty list is 0, the circular mean of \<open>[350, 10]\<close> is 360, which
  is not in \<open>[0, 360)\<close> (the averaged sines leave a negative angle of about
  \<open>-2.7 * 10\<^sup>-\<^sup>1\<^sup>4\<close> degrees, and adding 360 to it rounds to 360), and the circular mean of
  \<open>[0, 90, 180, 270]\<close> is 129.6008804674209, the direction of the rounding residue of
  the averaged vector: no fallback value is returned.
\<close>

theorem calculateCircularMean_seam_360:
  "calculateCircularMean sampleLib [] = 0 \<and>
   calculateCircularMean sampleLib [350, 10] = 360 \<and>
   \<not> calculateCircularMean sampleLib [350, 10] < 360 \<and>
   calculateCircularMean sampleLib [0, 90, 180, 270] = 569990700175747 / 4398046511104"
  unfolding circularMean_seam circularMean_cross
  by (simp add: calculateCircularMean_def)

text \<open>
  C4. For every list of input hex colours the grouping into the 13 hue families is a total
  partition: the grouping has exactly the 13 families as keys (a family without members
  has the empty list), the member list of a family is the sublist of the inputs
  classified into it, in input order, and the member lists together hold every input
  occurrence exactly once.
\<close>

theorem groupColors_partition:
  "map fst (groupColorsByOpenColorHue lib cs) =
     [Gray, Red, Pink, Grape, Violet, Indigo, Blue, Cyan, Teal, Green, Lime, Yellow, Orange] \<and>
   (\<forall>hue. map_of (groupColorsByOpenColorHue lib cs) hue =
            Some (filter (\<lambda>c. findClosestOpenColorHue lib c = hue) cs)) \<and>
   mset (concat (map snd (groupColorsByOpenColorHue lib cs))) = mset cs"
proof (intro conjI allI)
  show "map fst (groupColorsByOpenColorHue lib cs) =
     [Gray, Red, Pink, Grape, Violet, Indigo, Blue, Cyan, Teal, Green, Lime, Yellow, Orange]"
    by (simp add: group_char comp_def hueKeys_def)
next
  fix hue
  have "map_of (map (\<lambda>k. (k, g k)) ks) hue = (if hue \<in> set ks then Some (g hue) else None)"
    for g :: "OpenColorHue \<Rightarrow> string list" and ks
    by (induction ks) auto
  then show "map_of (groupColorsByOpenColorHue lib cs) hue =
            Some (filter (\<lambda>c. findClosestOpenColorHue lib c = hue) cs)"
    by (simp add: group_char hueKeys_all)
next
  show "mset (concat (map snd (groupColorsByOpenColorHue lib cs))) = mset cs"
    using mset_buckets [OF hueKeys_distinct, of "findClosestOpenColorHue lib" cs]
    by (simp add: group_char comp_def hueKeys_all)
qed

text \<open>
  C3. For the empty input collection and any multi-zone configuration the orchestration
  returns the result with \<open>totalColors = 0\<close>, no per-family analysis, no generated
  scheme and an empty reference mapping. The mean chroma over the (empty) list of analyses
  is the division \<open>0 / 0\<close>, that is \<open>NaN\<close>, and it is no part of the result.
\<close>

theorem analyze_empty_input:
  "analyzeColorsForSchemeGeneration lib [] cfg =
     \<lparr>totalColors = 0, hueAnalyses = [], generatedSchemes = [], openColorMapping = [],
      tripleHueConfig = cfg\<rparr> \<and>
   globalChroma (hueAnalyses (analyzeColorsForSchemeGeneration lib [] cfg)) = NaN"
  by (simp add: analyze_nil globalChroma_nil)

text \<open>
  C8. For every query colour, when the analysis holds no generated scheme, the global
  matcher returns the default match: the colour black \<open>#000000\<close>, the neutral family
  (gray) and the darkest shade index 9.
\<close>

theorem findClosestSchemeColor_no_schemes:
  "generatedSchemes a = [] \<Longrightarrow>
   findClosestSchemeColor lib inputColor a =
     \<lparr>cm_color = ''#000000'', cm_hue = Gray, cm_shade = 9, schemeName = ''Gray'',
      cm_distance = PosInf, colorName = ''gray-9''\<rparr>"
  by (simp add: findClosestSchemeColor_def defaultMatch_def)

theorem findClosestSchemeColor_no_schemes_witness:
  "generatedSchemes (analyzeColorsForSchemeGeneration sampleLib [] None) = [] \<and>
   findClosestSchemeColor sampleLib ''#339af0'' (analyzeColorsForSchemeGeneration sampleLib [] None) =
     \<lparr>cm_color = ''#000000'', cm_hue = Gray, cm_shade = 9, schemeName = ''Gray'',
      cm_distance = PosInf, colorName = ''gray-9''\<rparr>"
proof -
  have e: "generatedSchemes (analyzeColorsForSchemeGeneration sampleLib [] None) = []"
    by (simp add: analyze_nil)
  show ?thesis
    using e findClosestSchemeColor_no_schemes [OF e, of sampleLib "''#339af0''"] by simp
qed

text \<open>
  C9. The result of the orchestration depends only on the hex value and the occurrences of
  each sample: two collections that agree on these, sample by sample, give the same
  result under the same configuration, whatever their hue fields and metadata are.
\<close>

theorem analyze_depends_on_hex_and_occurrences:
  "map (\<lambda>e. (hexValue (snd e), occurrences (snd e))) d1 =
   map (\<lambda>e. (hexValue (snd e), occurrences (snd e))) d2 \<Longrightarrow>
   analyzeColorsForSchemeGeneration lib d1 cfg = analyzeColorsForSchemeGeneration lib d2 cfg"
  by (rule analyze_usedPart) (simp add: usedPart_def comp_def)

theorem analyze_depends_on_hex_and_occurrences_witness:
  "usedRed \<noteq> usedRedRelabelled \<and>
   map (\<lambda>e. (hexValue (snd e), occurrences (snd e))) usedRed =
   map (\<lambda>e. (hexValue (snd e), occurrences (snd e))) usedRedRelabelled \<and>
   analyzeColorsForSchemeGeneration sampleLib usedRed tripleHueOn =
   analyzeColorsForSchemeGeneration sampleLib usedRedRelabelled tripleHueOn"
proof -
  have e: "map (\<lambda>e. (hexValue (snd e), occurrences (snd e))) usedRed =
           map (\<lambda>e. (hexValue (snd e), occurrences (snd e))) usedRedRelabelled"
    by (simp add: usedRed_def usedRedRelabelled_def mkSample_def)
  have d: "usedRed \<noteq> usedRedRelabelled"
    by (simp add: usedRed_def usedRedRelabelled_def mkSample_def)
  show ?thesis
    using d e analyze_depends_on_hex_and_occurrences [OF e, of sampleLib tripleHueOn] by simp
qed

text \<open>
  C7, as stated, fails: a group of usage zero need not be in the per-family analysis
  list. In the collection with one used red the gray family is a group of the grouping,
  without members and so of usage zero, and the analysis list has the red family only.
\<close>

theorem usage_gating_memberless_counterexample:
  "(Gray, []) \<in> set (groupColorsByOpenColorHue sampleLib (map (\<lambda>x. hexValue (snd x)) usedRed)) \<and>
   groupUsage (map snd usedRed) [] = 0 \<and>
   map ha_hue (hueAnalyses (analyzeColorsForSchemeGeneration sampleLib usedRed None)) = [Red] \<and>
   Gray \<notin> ha_hue ` set (hueAnalyses (analyzeColorsForSchemeGeneration sampleLib usedRed None))"
proof -
  have g: "(Gray, []) \<in> set (groupColorsByOpenColorHue sampleLib (map (\<lambda>x. hexValue (snd x)) usedRed))"
    using groups_usedRed by (simp add: comp_def)
  have u: "groupUsage (map snd usedRed) [] = 0"
    by (simp add: groupUsage_def)
  have h: "map ha_hue (hueAnalyses (analyzeColorsForSchemeGeneration sampleLib usedRed None)) = [Red]"
    unfolding analyze_fields analyses_usedRed by (simp add: analyzeGroup_fields)
  have n: "Gray \<notin> ha_hue ` set (hueAnalyses (analyzeColorsForSchemeGeneration sampleLib usedRed None))"
    using arg_cong [OF h, of set] by simp
  show ?thesis
    by (rule conjI [OF g conjI [OF u conjI [OF h n]]])
qed

text \<open>
  C7, amended. For every input collection and configuration, the generated schemes are
  exactly the per-family analyses with usage greater than zero, in their order: every
  generated scheme comes from an analysis of the list with usage greater than zero, an
  analysis with usage zero is in no generated scheme, and the usage of a group is zero
  whenever none of the samples with one of its members' hex values has an occurrence.
  Every group with members has its analysis in the per-family list, whatever its usage
  is; a group without members has usage zero and no analysis in the list.
\<close>

theorem usage_gating:
  "map analysis (generatedSchemes (analyzeColorsForSchemeGeneration lib d cfg)) =
     filter (\<lambda>a. 0 < usage a) (hueAnalyses (analyzeColorsForSchemeGeneration lib d cfg)) \<and>
   (\<forall>s \<in> set (generatedSchemes (analyzeColorsForSchemeGeneration lib d cfg)).
      0 < usage (analysis s) \<and>
      analysis s \<in> set (hueAnalyses (analyzeColorsForSchemeGeneration lib d cfg))) \<and>
   (\<forall>a \<in> set (hueAnalyses (analyzeColorsForSchemeGeneration lib d cfg)).
      usage a = 0 \<longrightarrow>
      a \<notin> analysis ` set (generatedSchemes (analyzeColorsForSchemeGeneration lib d cfg))) \<and>
   (\<forall>a \<in> set (hueAnalyses (analyzeColorsForSchemeGeneration lib d cfg)).
      (\<forall>c \<in> set (map snd d). hexValue c \<in> set (ha_colors a) \<longrightarrow> occurrences c = []) \<longrightarrow>
      usage a = 0) \<and>
   (\<forall>e \<in> set (groupColorsByOpenColorHue lib (map (\<lambda>x. hexValue (snd x)) d)).
      snd e \<noteq> [] \<longrightarrow>
      (\<exists>a \<in> set (hueAnalyses (analyzeColorsForSchemeGeneration lib d cfg)).
         ha_hue a = fst e \<and> ha_colors a = snd e)) \<and>
   (\<forall>e \<in> set (groupColorsByOpenColorHue lib (map (\<lambda>x. hexValue (snd x)) d)).
      snd e = [] \<longrightarrow>
      groupUsage (map snd d) (snd e) = 0 \<and>
      fst e \<notin> ha_hue ` set (hueAnalyses (analyzeColorsForSchemeGeneration lib d cfg)))"
proof -
  let ?r = "analyzeColorsForSchemeGeneration lib d cfg"
  have A: "map analysis (generatedSchemes ?r) = filter (\<lambda>a. 0 < usage a) (hueAnalyses ?r)"
    by (simp add: analyze_fields comp_def makeScheme_fields)
  have S: "analysis ` set (generatedSchemes ?r) = {a \<in> set (hueAnalyses ?r). 0 < usage a}"
    using arg_cong [OF A, of set] by simp
  have B: "\<forall>s \<in> set (generatedSchemes ?r). 0 < usage (analysis s) \<and> analysis s \<in> set (hueAnalyses ?r)"
    using S by blast
  have C: "\<forall>a \<in> set (hueAnalyses ?r). usage a = 0 \<longrightarrow> a \<notin> analysis ` set (generatedSchemes ?r)"
    using S by simp
  have D: "\<forall>a \<in> set (hueAnalyses ?r).
      (\<forall>c \<in> set (map snd d). hexValue c \<in> set (ha_colors a) \<longrightarrow> occurrences c = []) \<longrightarrow>
      usage a = 0"
  proof (intro ballI impI)
    fix a
    assume a: "a \<in> set (hueAnalyses ?r)"
      and z: "\<forall>c \<in> set (map snd d). hexValue c \<in> set (ha_colors a) \<longrightarrow> occurrences c = []"
    from a obtain hue cs where "a = analyzeGroup lib (map snd d) cfg (hue, cs)"
      by (auto simp: analyze_fields set_computeHueAnalyses)
    then have "usage a = groupUsage (map snd d) (ha_colors a)"
      by (simp add: analyzeGroup_fields)
    also have "\<dots> = 0" using z by (intro groupUsage_zero) blast
    finally show "usage a = 0" .
  qed
  have E: "\<forall>e \<in> set (groupColorsByOpenColorHue lib (map (\<lambda>x. hexValue (snd x)) d)).
      snd e \<noteq> [] \<longrightarrow> (\<exists>a \<in> set (hueAnalyses ?r). ha_hue a = fst e \<and> ha_colors a = snd e)"
  proof (intro ballI impI)
    fix e
    assume e: "e \<in> set (groupColorsByOpenColorHue lib (map (\<lambda>x. hexValue (snd x)) d))"
      and n: "snd e \<noteq> []"
    have "analyzeGroup lib (map snd d) cfg e \<in> set (hueAnalyses ?r)"
      using e n by (simp add: analyze_fields set_computeHueAnalyses comp_def)
    moreover have "ha_hue (analyzeGroup lib (map snd d) cfg e) = fst e"
      "ha_colors (analyzeGroup lib (map snd d) cfg e) = snd e"
      by (cases e; simp add: analyzeGroup_fields)+
    ultimately show "\<exists>a \<in> set (hueAnalyses ?r). ha_hue a = fst e \<and> ha_colors a = snd e"
      by blast
  qed
  have F: "\<forall>e \<in> set (groupColorsByOpenColorHue lib (map (\<lambda>x. hexValue (snd x)) d)).
      snd e = [] \<longrightarrow>
      groupUsage (map snd d) (snd e) = 0 \<and> fst e \<notin> ha_hue ` set (hueAnalyses ?r)"
  proof (intro ballI impI conjI)
    fix e
    assume e: "e \<in> set (groupColorsByOpenColorHue lib (map (\<lambda>x. hexValue (snd x)) d))"
      and n: "snd e = []"
    show "groupUsage (map snd d) (snd e) = 0"
      unfolding n by (simp add: groupUsage_def)
    show "fst e \<notin> ha_hue ` set (hueAnalyses ?r)"
    proof
      assume "fst e \<in> ha_hue ` set (hueAnalyses ?r)"
      then obtain e' where e': "e' \<in> set (groupColorsByOpenColorHue lib (map hexValue (map snd d)))"
        and m: "snd e' \<noteq> []" and k: "ha_hue (analyzeGroup lib (map snd d) cfg e') = fst e"
        by (auto simp: analyze_fields set_computeHueAnalyses)
      have "ha_hue (analyzeGroup lib (map snd d) cfg e') = fst e'"
        by (cases e'; simp add: analyzeGroup_fields)
      then have q: "fst e' = fst e" using k by simp
      from e have "snd e = filter (\<lambda>c. findClosestOpenColorHue lib c = fst e) (map hexValue (map snd d))"
        by (auto simp: group_char comp_def)
      moreover from e' have "snd e' = filter (\<lambda>c. findClosestOpenColorHue lib c = fst e') (map hexValue (map snd d))"
        by (auto simp: group_char)
      ultimately have "snd e' = snd e" using q by simp
      then show False using m n by simp
    qed
  qed
  show ?thesis
    by (rule conjI [OF A conjI [OF B conjI [OF C conjI [OF D conjI [OF E F]]]]])
qed

theorem usage_gating_witness:
  "map (\<lambda>a. (ha_hue a, ha_colors a, usage a))
     (hueAnalyses (analyzeColorsForSchemeGeneration sampleLib unusedRedUsedGrey None)) =
     [(Red, [''#ff0000''], 0), (Gray, [''#808080''], 1)] \<and>
   map (\<lambda>s. (ha_hue (analysis s), usage (analysis s)))
     (generatedSchemes (analyzeColorsForSchemeGeneration sampleLib unusedRedUsedGrey None)) =
     [(Gray, 1)] \<and>
   (Pink, []) \<in> set (groupColorsByOpenColorHue sampleLib
                      (map (\<lambda>x. hexValue (snd x)) unusedRedUsedGrey)) \<and>
   Pink \<notin> ha_hue ` set (hueAnalyses (analyzeColorsForSchemeGeneration sampleLib unusedRedUsedGrey None))"
proof -
  let ?r = "analyzeColorsForSchemeGeneration sampleLib unusedRedUsedGrey None"
  have h: "hueAnalyses ?r =
     [analyzeGroup sampleLib (map snd unusedRedUsedGrey) None (Red, [''#ff0000'']),
      analyzeGroup sampleLib (map snd unusedRedUsedGrey) None (Gray, [''#808080''])]"
    by (simp only: analyze_fields analyses_unusedRedUsedGrey)
  have g: "map analysis (generatedSchemes ?r) = filter (\<lambda>a. 0 < usage a) (hueAnalyses ?r)"
    using usage_gating [of sampleLib unusedRedUsedGrey None] by (rule conjunct1)
  have "map (\<lambda>s. (ha_hue (analysis s), usage (analysis s))) (generatedSchemes ?r) =
        map (\<lambda>a. (ha_hue a, usage a)) (map analysis (generatedSchemes ?r))"
    by (simp add: comp_def)
  also have "\<dots> = [(Gray, 1)]"
    unfolding g h by (simp add: analyzeGroup_fields usage_unusedRedUsedGrey)
  finally have s: "map (\<lambda>s. (ha_hue (analysis s), usage (analysis s))) (generatedSchemes ?r) =
        [(Gray, 1)]" .
  have a: "map (\<lambda>a. (ha_hue a, ha_colors a, usage a)) (hueAnalyses ?r) =
     [(Red, [''#ff0000''], 0), (Gray, [''#808080''], 1)]"
    unfolding h by (simp add: analyzeGroup_fields usage_unusedRedUsedGrey)
  have p: "(Pink, []) \<in> set (groupColorsByOpenColorHue sampleLib
                      (map (\<lambda>x. hexValue (snd x)) unusedRedUsedGrey))"
    using groups_unusedRedUsedGrey by (simp add: comp_def)
  have "\<forall>e \<in> set (groupColorsByOpenColorHue sampleLib
                      (map (\<lambda>x. hexValue (snd x)) unusedRedUsedGrey)).
      snd e = [] \<longrightarrow>
      groupUsage (map snd unusedRedUsedGrey) (snd e) = 0 \<and> fst e \<notin> ha_hue ` set (hueAnalyses ?r)"
    using usage_gating [of sampleLib unusedRedUsedGrey None] by (simp only: conj_imp_eq_imp_imp)
  with p have n: "Pink \<notin> ha_hue ` set (hueAnalyses ?r)"
    by fastforce
  show ?thesis
    by (rule conjI [OF a conjI [OF s conjI [OF p n]]])
qed

text \<open>
  C10. For every input collection and configuration the complete palette has the 13
  families as its keys, each with a list of exactly 10 shades. A family without a
  generated scheme keeps the shade list of the static reference palette, and the family
  of every generated scheme (each has usage at least 1) has the generated shades.
\<close>

theorem complete_palette:
  "map fst (generateCompleteOpenColorPalette lib d cfg) =
     [Gray, Red, Pink, Grape, Violet, Indigo, Blue, Cyan, Teal, Green, Lime, Yellow, Orange] \<and>
   (\<forall>hue. \<exists>xs. map_of (generateCompleteOpenColorPalette lib d cfg) hue = Some xs \<and>
                length xs = 10) \<and>
   (\<forall>hue. hue \<notin> gs_hue ` set (generatedSchemes (analyzeColorsForSchemeGeneration lib d cfg)) \<longrightarrow>
      map_of (generateCompleteOpenColorPalette lib d cfg) hue = map_of OPEN_COLOR_PALETTE hue) \<and>
   (\<forall>s \<in> set (generatedSchemes (analyzeColorsForSchemeGeneration lib d cfg)).
      1 \<le> usage (analysis s) \<and>
      map_of (generateCompleteOpenColorPalette lib d cfg) (gs_hue s) = Some (shades s))"
proof -
  let ?ss = "generatedSchemes (analyzeColorsForSchemeGeneration lib d cfg)"
  have u: "1 \<le> usage (analysis s)" if "s \<in> set ?ss" for s
    using that by (auto simp: analyze_fields makeScheme_fields)
  have n: "length (shades s) = 10" if "s \<in> set ?ss" for s
    using that by (auto simp: analyze_fields makeScheme_fields shades_length)
  have all: "set (map fst OPEN_COLOR_PALETTE) = UNIV"
    using hueKeys_all by (auto simp: palette_keys)
  have A: "map fst (generateCompleteOpenColorPalette lib d cfg) =
     [Gray, Red, Pink, Grape, Violet, Indigo, Blue, Cyan, Teal, Green, Lime, Yellow, Orange]"
    unfolding palette_fold replace_keys [OF all] by (simp add: palette_keys hueKeys_def)
  have B: "\<forall>hue. \<exists>xs. map_of (generateCompleteOpenColorPalette lib d cfg) hue = Some xs \<and>
                length xs = 10"
    unfolding palette_fold using replace_some [OF palette_lengths n] by blast
  have C: "\<forall>hue. hue \<notin> gs_hue ` set ?ss \<longrightarrow>
      map_of (generateCompleteOpenColorPalette lib d cfg) hue = map_of OPEN_COLOR_PALETTE hue"
    unfolding palette_fold by (simp add: replace_other)
  have D: "\<forall>s \<in> set ?ss. 1 \<le> usage (analysis s) \<and>
      map_of (generateCompleteOpenColorPalette lib d cfg) (gs_hue s) = Some (shades s)"
    unfolding palette_fold using replace_in [OF scheme_hues_distinct] u by blast
  show ?thesis
    by (rule conjI [OF A conjI [OF B conjI [OF C D]]])
qed


theorem complete_palette_witness:
  "gs_hue ` set (generatedSchemes
      (analyzeColorsForSchemeGeneration sampleLib unusedRedUsedGrey None)) = {Gray} \<and>
   map_of (generateCompleteOpenColorPalette sampleLib unusedRedUsedGrey None) Red =
     Some [''#fff5f5'', ''#ffe3e3'', ''#ffc9c9'', ''#ffa8a8'', ''#ff8787'', ''#ff6b6b'',
           ''#fa5252'', ''#f03e3e'', ''#e03131'', ''#c92a2a''] \<and>
   map_of (generateCompleteOpenColorPalette sampleLib unusedRedUsedGrey None) Gray =
     Some (map (\<lambda>lightness. toHex sampleLib \<lparr>in_h = 210, in_s = Num 8, in_l = lightness\<rparr>)
             lightnessSteps)"
proof -
  let ?r = "analyzeColorsForSchemeGeneration sampleLib unusedRedUsedGrey None"
  let ?p = "generateCompleteOpenColorPalette sampleLib unusedRedUsedGrey None"
  let ?s = "makeScheme sampleLib None
        (globalChroma (computeHueAnalyses sampleLib (map snd unusedRedUsedGrey) None))
        (analyzeGroup sampleLib (map snd unusedRedUsedGrey) None (Gray, [''#808080'']))"
  note t = complete_palette [of sampleLib unusedRedUsedGrey None]
  have hs: "gs_hue ` set (generatedSchemes ?r) = {Gray}"
    unfolding schemes_unusedRedUsedGrey by (simp add: makeScheme_fields analyzeGroup_fields)
  have "Red \<notin> gs_hue ` set (generatedSchemes ?r)"
    unfolding hs by simp
  with t have "map_of ?p Red = map_of OPEN_COLOR_PALETTE Red" by blast
  then have red: "map_of ?p Red =
     Some [''#fff5f5'', ''#ffe3e3'', ''#ffc9c9'', ''#ffa8a8'', ''#ff8787'', ''#ff6b6b'',
           ''#fa5252'', ''#f03e3e'', ''#e03131'', ''#c92a2a'']"
    by (simp add: OPEN_COLOR_PALETTE_def)
  have "?s \<in> set (generatedSchemes ?r)"
    unfolding schemes_unusedRedUsedGrey by simp
  with t have "map_of ?p (gs_hue ?s) = Some (shades ?s)" by blast
  then have grey: "map_of ?p Gray =
     Some (map (\<lambda>lightness. toHex sampleLib \<lparr>in_h = 210, in_s = Num 8, in_l = lightness\<rparr>)
             lightnessSteps)"
    by (simp add: makeScheme_fields analyzeGroup_fields generateOpenColorShades_def)
  show ?thesis
    by (rule conjI [OF hs conjI [OF red grey]])
qed




text \<open>
  C2, as stated, fails: for a collection with one used red and multi-zone mode enabled,
  the orchestration generates the red scheme with the flag \<open>tripleHueMode\<close> true,
  although its three zone hues are all 0 and its shades are synthesized from the single
  average hue.
\<close>

theorem tripleHueMode_flag_counterexample:
  "map (\<lambda>s. (gs_hue s, tripleHueMode s,
              highlightHue (analysis s), midtoneHue (analysis s), shadowHue (analysis s),
              interpolationUsed tripleHueOn (analysis s)))
     (generatedSchemes (analyzeColorsForSchemeGeneration sampleLib usedRed tripleHueOn)) =
   [(Red, Some True, Some 0, Some 0, Some 0, False)]"
  unfolding schemes_usedRed
  by (simp add: makeScheme_fields analyzeGroup_fields enabled_tripleHueOn used_usedRed
      average_usedRed)

text \<open>
  C2, amended. For every generated scheme the flag \<open>tripleHueMode\<close> is the setting
  \<open>enabled\<close> of the configuration (undefined without a configuration). It is true
  whenever multi-zone interpolation was used for the scheme's shades, in which case every
  shade has the three-zone hue of its lightness; when interpolation was not used, all
  shades of the scheme have one hue, whatever the flag is.
\<close>

theorem tripleHueMode_flag:
  "\<forall>s \<in> set (generatedSchemes (analyzeColorsForSchemeGeneration lib d cfg)).
     tripleHueMode s = configEnabled cfg \<and>
     (interpolationUsed cfg (analysis s) \<longrightarrow> tripleHueMode s = Some True) \<and>
     (interpolationUsed cfg (analysis s) \<longrightarrow>
        (\<exists>a b c sat.
           highlightHue (analysis s) = Some a \<and> midtoneHue (analysis s) = Some b \<and>
           shadowHue (analysis s) = Some c \<and>
           shades s =
             map (\<lambda>lightness. toHex lib \<lparr>in_h = threeZoneHue a b c lightness,
                    in_s = sat lightness, in_l = lightness\<rparr>) lightnessSteps)) \<and>
     (\<not> interpolationUsed cfg (analysis s) \<longrightarrow>
        (\<exists>hu sat.
           shades s =
             map (\<lambda>lightness. toHex lib \<lparr>in_h = hu, in_s = sat lightness, in_l = lightness\<rparr>)
               lightnessSteps))"
proof
  fix s
  assume "s \<in> set (generatedSchemes (analyzeColorsForSchemeGeneration lib d cfg))"
  then obtain g a where s: "s = makeScheme lib cfg g a"
    by (auto simp: analyze_fields)
  let ?sat = "\<lambda>lightness. js_min (Num 100)
        (js_max (Num 0) (getChromaForLightness (js_max (Num (avgChroma a)) g) lightness))"
  have m: "tripleHueMode s = configEnabled cfg"
    by (simp add: s makeScheme_fields)
  have t: "tripleHueMode s = Some True" if "interpolationUsed cfg (analysis s)"
    using that by (simp add: s makeScheme_fields interpolationUsed_def useTripleHue_def)
  have u: "\<exists>a b c sat.
           highlightHue (analysis s) = Some a \<and> midtoneHue (analysis s) = Some b \<and>
           shadowHue (analysis s) = Some c \<and>
           shades s =
             map (\<lambda>lightness. toHex lib \<lparr>in_h = threeZoneHue a b c lightness,
                    in_s = sat lightness, in_l = lightness\<rparr>) lightnessSteps"
    if "interpolationUsed cfg (analysis s)"
  proof -
    from that have ng: "ha_hue a \<noteq> Gray"
      and ut: "useTripleHue (configEnabled cfg) (highlightHue a) (midtoneHue a) (shadowHue a)"
      by (simp_all add: s makeScheme_fields interpolationUsed_def)
    from ut obtain x y z where z: "highlightHue a = Some x" "midtoneHue a = Some y"
      "shadowHue a = Some z"
      by (auto simp: useTripleHue_iff)
    have "shades s =
        map (\<lambda>lightness. toHex lib \<lparr>in_h = threeZoneHue x y z lightness,
               in_s = ?sat lightness, in_l = min 100 (max 0 lightness)\<rparr>) lightnessSteps"
      using ng ut unfolding z
      by (simp add: s makeScheme_fields z generateOpenColorShades_def hueToUse_zones)
    also have "\<dots> = map (\<lambda>lightness. toHex lib \<lparr>in_h = threeZoneHue x y z lightness,
               in_s = ?sat lightness, in_l = lightness\<rparr>) lightnessSteps"
      by (simp add: lightnessSteps_def)
    finally show ?thesis using z by (auto simp: s makeScheme_fields)
  qed
  have v: "\<exists>hu sat. shades s =
             map (\<lambda>lightness. toHex lib \<lparr>in_h = hu, in_s = sat lightness, in_l = lightness\<rparr>)
               lightnessSteps"
    if "\<not> interpolationUsed cfg (analysis s)"
  proof (cases "ha_hue a = Gray")
    case True
    then have "shades s =
        map (\<lambda>lightness. toHex lib \<lparr>in_h = 210, in_s = Num 8, in_l = lightness\<rparr>)
          lightnessSteps"
      by (simp add: s makeScheme_fields generateOpenColorShades_def)
    then show ?thesis
      by (intro exI [where x = 210] exI [where x = "\<lambda>_. Num 8"]) simp
  next
    case False
    with that have nu:
      "\<not> useTripleHue (configEnabled cfg) (highlightHue a) (midtoneHue a) (shadowHue a)"
      by (simp add: s makeScheme_fields interpolationUsed_def)
    have "shades s =
        map (\<lambda>lightness. toHex lib \<lparr>in_h = js_rem (js_rem (avgHue a) 360 + 360) 360,
               in_s = ?sat lightness, in_l = min 100 (max 0 lightness)\<rparr>) lightnessSteps"
      using False nu
      by (simp add: s makeScheme_fields generateOpenColorShades_def hueToUse_single)
    also have "\<dots> = map (\<lambda>lightness. toHex lib \<lparr>in_h = js_rem (js_rem (avgHue a) 360 + 360) 360,
               in_s = ?sat lightness, in_l = lightness\<rparr>) lightnessSteps"
      by (simp add: lightnessSteps_def)
    finally show ?thesis
      by (intro exI [where x = "js_rem (js_rem (avgHue a) 360 + 360) 360"]
          exI [where x = ?sat])
  qed
  from m t u v show "tripleHueMode s = configEnabled cfg \<and>
     (interpolationUsed cfg (analysis s) \<longrightarrow> tripleHueMode s = Some True) \<and>
     (interpolationUsed cfg (analysis s) \<longrightarrow>
        (\<exists>a b c sat.
           highlightHue (analysis s) = Some a \<and> midtoneHue (analysis s) = Some b \<and>
           shadowHue (analysis s) = Some c \<and>
           shades s =
             map (\<lambda>lightness. toHex lib \<lparr>in_h = threeZoneHue a b c lightness,
                    in_s = sat lightness, in_l = lightness\<rparr>) lightnessSteps)) \<and>
     (\<not> interpolationUsed cfg (analysis s) \<longrightarrow>
        (\<exists>hu sat.
           shades s =
             map (\<lambda>lightness. toHex lib \<lparr>in_h = hu, in_s = sat lightness, in_l = lightness\<rparr>)
               lightnessSteps))"
    by blast
qed

theorem tripleHueMode_flag_witness:
  "map (\<lambda>s. (gs_hue s, tripleHueMode s, interpolationUsed tripleHueOn (analysis s)))
     (generatedSchemes (analyzeColorsForSchemeGeneration sampleLib twoReds tripleHueOn)) =
   [(Red, Some True, True)]"
proof -
  let ?s = "makeScheme sampleLib tripleHueOn
        (globalChroma (computeHueAnalyses sampleLib (map snd twoReds) tripleHueOn))
        (analyzeGroup sampleLib (map snd twoReds) tripleHueOn (Red, [''#ffaa99'', ''#ff002b'']))"
  have i: "?s \<in> set (generatedSchemes
      (analyzeColorsForSchemeGeneration sampleLib twoReds tripleHueOn))"
    unfolding schemes_twoReds by simp
  have u: "interpolationUsed tripleHueOn (analysis ?s)"
    by (simp add: makeScheme_fields used_twoReds)
  from tripleHueMode_flag [of sampleLib twoReds tripleHueOn] i u
  have f: "tripleHueMode ?s = Some True" by blast
  show ?thesis
    unfolding schemes_twoReds using f u
    by (simp add: makeScheme_fields analyzeGroup_fields)
qed

end
